theory Spec2Isabelle
  imports Main "HOL-Library.Word" "HOL-Library.Multiset" "HOL-Library.Product_Lexorder"
    "HOL-Library.List_Lexorder" "HOL-Library.Char_ord"
begin

section \<open>The host resolver library (hostfxr.cpp)\<close>

text \<open>
  A shallow embedding of \<^verbatim>\<open>src/corehost/cli/fxr/hostfxr.cpp\<close>. Every function of the
  file is a HOL function that returns, besides its C++ result, the list of the calls it
  makes to its collaborators (the platform layer \<^verbatim>\<open>pal\<close>, the diagnostics sink, the
  entry points of the loaded module, the SDK resolver, the caller's callbacks) in the order
  in which the source makes them. The collaborators are not part of the file: what they
  answer is a parameter of the model.
\<close>

subsection \<open>Values\<close>

text \<open>
  \<^verbatim>\<open>pal::string_t\<close> is a sequence of \<^verbatim>\<open>pal::char_t\<close>; its length is not bounded by the model.
  \<^verbatim>\<open>int\<close> and \<^verbatim>\<open>int32_t\<close> are 32-bit two's complement words, read with \<open>sint\<close> where the
  source compares them as signed numbers. A pointer that the source tests against
  \<^verbatim>\<open>nullptr\<close> is an \<open>option\<close>. A caller's buffer is the memory behind its pointer: the
  cell at every offset.
\<close>

type_synonym pal_string = string
type_synonym int32 = "32 word"
type_synonym dll_t = nat
type_synonym fn_ptr = nat
type_synonym buffer = "nat \<Rightarrow> char"

definition NUL :: char where
  "NUL = CHR 0x00"

text \<open>
  Modelled from the spec: \<^verbatim>\<open>error_codes.h\<close> is not among the sources. The spec fixes
  zero for success and a distinct value for every failure kind, and the comments of
  hostfxr.cpp give \<^verbatim>\<open>0x8000809b\<close> for \<^verbatim>\<open>SdkResolverResolveFailure\<close>; the other numerals are
  those of the enumeration in its declared order. The theorems use only that the failure
  codes differ from zero and from each other.
\<close>

definition Success :: int32 where
  "Success = 0"

definition InvalidArgFailure :: int32 where
  "InvalidArgFailure = 0x80008081"

definition CoreHostLibLoadFailure :: int32 where
  "CoreHostLibLoadFailure = 0x80008082"

definition CoreHostLibMissingFailure :: int32 where
  "CoreHostLibMissingFailure = 0x80008083"

definition CoreHostEntryPointFailure :: int32 where
  "CoreHostEntryPointFailure = 0x80008084"

definition SdkResolverResolveFailure :: int32 where
  "SdkResolverResolveFailure = 0x8000809b"

lemmas StatusCode_defs =
  Success_def InvalidArgFailure_def CoreHostLibLoadFailure_def
  CoreHostLibMissingFailure_def CoreHostEntryPointFailure_def SdkResolverResolveFailure_def

datatype hostfxr_resolve_sdk2_result_key_t = resolved_sdk_dir | global_json_path

subsection \<open>Observable calls\<close>

datatype event =
    Trace_setup
  | Trace_info
  | Trace_error
  | Trace_flush
  | Library_exists_in_dir pal_string pal_string
  | Load_library pal_string
  | Get_symbol dll_t string
  | Unload_library dll_t
  | Get_host_init_data
  | Host_load fn_ptr
  | Host_main fn_ptr
  | Host_main_with_output_buffer fn_ptr
  | Host_unload fn_ptr
  | Resolve_sdk_dotnet_path pal_string pal_string
  | Resolve_sdk_dotnet_path2 pal_string pal_string bool
  | Result_sdk2 hostfxr_resolve_sdk2_result_key_t pal_string
  | Get_all_sdk_infos pal_string
  | Result_sdks int32 "pal_string list option"
  | Startup_info_parse int32 "pal_string list"
  | Muxer_execute pal_string

text \<open>
  What a call can end with besides a return: a failed \<^verbatim>\<open>assert\<close>, or the use of a
  pointer that is \<^verbatim>\<open>nullptr\<close> (a call through it, a write behind it).
\<close>

datatype fault = Assert_failed | Null_pointer

subsection \<open>The library loader\<close>

text \<open>
  The platform layer and the loaded module. \<open>library_exists_in_dir\<close> answers with the
  path it stores in \<^verbatim>\<open>host_path\<close>, \<open>load_library\<close> with the handle it stores in
  \<^verbatim>\<open>h_host\<close>, \<open>get_symbol\<close> with the address of the symbol or \<^verbatim>\<open>nullptr\<close>. The last
  four fields are what the code behind an entry point returns when it is called.
\<close>

record ('init, 'intf) host_env =
  LIBHOSTPOLICY_NAME :: pal_string
  library_exists_in_dir :: "pal_string \<Rightarrow> pal_string \<Rightarrow> pal_string option"
  load_library :: "pal_string \<Rightarrow> dll_t option"
  get_symbol :: "dll_t \<Rightarrow> string \<Rightarrow> fn_ptr option"
  get_host_init_data :: "'init \<Rightarrow> 'intf"
  corehost_load :: "fn_ptr \<Rightarrow> 'intf \<Rightarrow> int32"
  corehost_main :: "fn_ptr \<Rightarrow> int32 \<Rightarrow> pal_string list \<Rightarrow> int32"
  corehost_main_with_output_buffer ::
    "fn_ptr \<Rightarrow> int32 \<Rightarrow> pal_string list \<Rightarrow> buffer option \<Rightarrow> int32 \<Rightarrow> int32 option
      \<Rightarrow> int32 \<times> buffer option \<times> int32 option"

text \<open>
  The locals that the loader fills through its out-parameters: the module handle
  (\<open>None\<close> while unset) and the entry points (\<open>None\<close> is \<^verbatim>\<open>nullptr\<close>).
\<close>

record host_library =
  h_host :: "dll_t option"
  load_fn :: "fn_ptr option"
  unload_fn :: "fn_ptr option"
  main_fn :: "fn_ptr option"

definition no_library :: host_library where
  "no_library = \<lparr>h_host = None, load_fn = None, unload_fn = None, main_fn = None\<rparr>"

definition load_host_library_common ::
  "('init, 'intf) host_env \<Rightarrow> pal_string \<Rightarrow> pal_string \<Rightarrow> host_library
    \<Rightarrow> event list \<times> int32 \<times> pal_string \<times> host_library" where
  "load_host_library_common env lib_dir host_path lib =
     (case library_exists_in_dir env lib_dir (LIBHOSTPOLICY_NAME env) of
        None \<Rightarrow>
          ([Library_exists_in_dir lib_dir (LIBHOSTPOLICY_NAME env)],
           CoreHostLibMissingFailure, host_path, lib)
      | Some path \<Rightarrow>
          (case load_library env path of
             None \<Rightarrow>
               ([Library_exists_in_dir lib_dir (LIBHOSTPOLICY_NAME env),
                 Load_library path, Trace_info],
                CoreHostLibLoadFailure, path, lib)
           | Some h \<Rightarrow>
               (let l = get_symbol env h ''corehost_load'';
                    u = get_symbol env h ''corehost_unload''
                in ([Library_exists_in_dir lib_dir (LIBHOSTPOLICY_NAME env),
                     Load_library path,
                     Get_symbol h ''corehost_load'', Get_symbol h ''corehost_unload''],
                    (if l \<noteq> None \<and> u \<noteq> None then Success else CoreHostEntryPointFailure),
                    path,
                    lib\<lparr>h_host := Some h, load_fn := l, unload_fn := u\<rparr>))))"

definition load_host_library ::
  "('init, 'intf) host_env \<Rightarrow> pal_string \<Rightarrow> host_library
    \<Rightarrow> event list \<times> int32 \<times> host_library" where
  "load_host_library env lib_dir lib =
     (case load_host_library_common env lib_dir [] lib of
        (tr, rc, host_path, lib') \<Rightarrow>
          if rc \<noteq> Success then (tr, rc, lib')
          else (case h_host lib' of
                  None \<Rightarrow> (tr, rc, lib')
                | Some h \<Rightarrow>
                    (let m = get_symbol env h ''corehost_main''
                     in (tr @ [Get_symbol h ''corehost_main''],
                         (if m \<noteq> None then Success else CoreHostEntryPointFailure),
                         lib'\<lparr>main_fn := m\<rparr>))))"

definition load_host_library_with_return ::
  "('init, 'intf) host_env \<Rightarrow> pal_string \<Rightarrow> host_library
    \<Rightarrow> event list \<times> int32 \<times> host_library" where
  "load_host_library_with_return env lib_dir lib =
     (case load_host_library_common env lib_dir [] lib of
        (tr, rc, host_path, lib') \<Rightarrow>
          if rc \<noteq> Success then (tr, rc, lib')
          else (case h_host lib' of
                  None \<Rightarrow> (tr, rc, lib')
                | Some h \<Rightarrow>
                    (let m = get_symbol env h ''corehost_main_with_output_buffer''
                     in (tr @ [Get_symbol h ''corehost_main_with_output_buffer''],
                         (if m \<noteq> None then Success else CoreHostEntryPointFailure),
                         lib'\<lparr>main_fn := m\<rparr>))))"


subsection \<open>The execution dispatcher\<close>

text \<open>
  Both dispatchers start from locals that are \<^verbatim>\<open>nullptr\<close>. After the flush of the
  diagnostics they call the module's \<^verbatim>\<open>load\<close> entry point; its result decides whether
  \<^verbatim>\<open>main\<close> and \<^verbatim>\<open>unload\<close> run. \<^verbatim>\<open>pal::unload_library\<close> follows on both paths.
\<close>

definition execute_app ::
  "('init, 'intf) host_env \<Rightarrow> pal_string \<Rightarrow> 'init \<Rightarrow> int32 \<Rightarrow> pal_string list
    \<Rightarrow> fault + (event list \<times> int32)" where
  "execute_app env impl_dll_dir init argc argv =
     (case load_host_library env impl_dll_dir no_library of
        (tr, code, lib) \<Rightarrow>
          if code \<noteq> Success then Inr (tr @ [Trace_error], code)
          else
            (case (h_host lib, load_fn lib, main_fn lib, unload_fn lib) of
               (Some corehost, Some host_load, Some host_main, Some host_unload) \<Rightarrow>
                 (let intf = get_host_init_data env init;
                      code = corehost_load env host_load intf
                  in if code = 0
                     then Inr (tr @ [Trace_flush, Get_host_init_data, Host_load host_load,
                                     Host_main host_main, Host_unload host_unload,
                                     Unload_library corehost],
                               corehost_main env host_main argc argv)
                     else Inr (tr @ [Trace_flush, Get_host_init_data, Host_load host_load,
                                     Unload_library corehost],
                               code))
             | _ \<Rightarrow> Inl Null_pointer))"

definition execute_host_command ::
  "('init, 'intf) host_env \<Rightarrow> pal_string \<Rightarrow> 'init \<Rightarrow> int32 \<Rightarrow> pal_string list
    \<Rightarrow> buffer option \<Rightarrow> int32 \<Rightarrow> int32 option
    \<Rightarrow> fault + (event list \<times> int32 \<times> buffer option \<times> int32 option)" where
  "execute_host_command env impl_dll_dir init argc argv result_buffer buffer_size
      required_buffer_size =
     (case load_host_library_with_return env impl_dll_dir no_library of
        (tr, code, lib) \<Rightarrow>
          if code \<noteq> Success
          then Inr (tr @ [Trace_error], code, result_buffer, required_buffer_size)
          else
            (case (h_host lib, load_fn lib, main_fn lib, unload_fn lib) of
               (Some corehost, Some host_load, Some host_main, Some host_unload) \<Rightarrow>
                 (let intf = get_host_init_data env init;
                      code = corehost_load env host_load intf
                  in if code = 0
                     then
                       (case corehost_main_with_output_buffer env host_main argc argv
                               result_buffer buffer_size required_buffer_size of
                          (code, result_buffer', required_buffer_size') \<Rightarrow>
                            Inr (tr @ [Trace_flush, Get_host_init_data, Host_load host_load,
                                       Host_main_with_output_buffer host_main,
                                       Host_unload host_unload, Unload_library corehost],
                                 code, result_buffer', required_buffer_size'))
                     else Inr (tr @ [Trace_flush, Get_host_init_data, Host_load host_load,
                                     Unload_library corehost],
                               code, result_buffer, required_buffer_size))
             | _ \<Rightarrow> Inl Null_pointer))"

text \<open>The calls that make up the life cycle of a loaded module, in the order made.\<close>

fun is_lifecycle :: "event \<Rightarrow> bool" where
  "is_lifecycle (Host_load f) = True"
| "is_lifecycle (Host_main f) = True"
| "is_lifecycle (Host_main_with_output_buffer f) = True"
| "is_lifecycle (Host_unload f) = True"
| "is_lifecycle (Unload_library h) = True"
| "is_lifecycle e = False"

definition lifecycle :: "event list \<Rightarrow> event list" where
  "lifecycle tr = filter is_lifecycle tr"

text \<open>The calls that reach the operating system's loader or a module's symbol table.\<close>

fun is_loader_call :: "event \<Rightarrow> bool" where
  "is_loader_call (Load_library p) = True"
| "is_loader_call (Get_symbol h s) = True"
| "is_loader_call e = False"

section \<open>The resolution facade\<close>

unbundle bit_operations_syntax

text \<open>
  The collaborators of the facade are arguments of its operations. The two overloads of
  \<^verbatim>\<open>sdk_resolver_t::resolve_sdk_dotnet_path\<close> answer with their \<^verbatim>\<open>bool\<close> and with the
  strings they leave behind their out-parameters.
\<close>

type_synonym sdk_resolver = "pal_string \<Rightarrow> pal_string \<Rightarrow> bool \<times> pal_string"
type_synonym sdk_resolver2 =
  "pal_string \<Rightarrow> pal_string \<Rightarrow> bool \<Rightarrow> bool \<times> pal_string \<times> pal_string"

text \<open>A path argument that is \<^verbatim>\<open>nullptr\<close> is replaced by the empty string.\<close>

definition or_empty :: "pal_string option \<Rightarrow> pal_string" where
  "or_empty dir = (case dir of None \<Rightarrow> [] | Some d \<Rightarrow> d)"

subsection \<open>hostfxr\_resolve\_sdk\<close>

text \<open>
  \<^verbatim>\<open>std::basic_string::copy(dest, count)\<close> writes the first \<open>min count size\<close> characters
  to \<open>dest\<close>, one cell after the other, appends nothing, and returns their number.
\<close>

fun write_chars :: "buffer \<Rightarrow> nat \<Rightarrow> char list \<Rightarrow> buffer" where
  "write_chars mem i [] = mem"
| "write_chars mem i (c # cs) = write_chars (mem(i := c)) (Suc i) cs"

definition string_copy :: "pal_string \<Rightarrow> buffer \<Rightarrow> nat \<Rightarrow> buffer \<times> nat" where
  "string_copy s dest cnt =
     (let rcount = min cnt (length s) in (write_chars dest 0 (take rcount s), rcount))"

text \<open>
  The comparison \<^verbatim>\<open>cli_sdk.size() < buffer_size\<close> converts \<^verbatim>\<open>buffer_size\<close> to \<^verbatim>\<open>size_t\<close>;
  it is reached with \<open>0 \<le> sint buffer_size\<close> only, where the conversion keeps the value.
  The result \<^verbatim>\<open>cli_sdk.size() + 1\<close> is converted to \<^verbatim>\<open>int32_t\<close>, which keeps its low 32
  bits.
\<close>

definition hostfxr_resolve_sdk ::
  "sdk_resolver \<Rightarrow> pal_string option \<Rightarrow> pal_string option \<Rightarrow> buffer option \<Rightarrow> int32
    \<Rightarrow> fault + (event list \<times> buffer option \<times> int32)" where
  "hostfxr_resolve_sdk resolve_sdk_dotnet_path exe_dir working_dir buffer buffer_size =
     (if sint buffer_size < 0 \<or> (0 < sint buffer_size \<and> buffer = None)
      then Inr ([Trace_setup, Trace_info, Trace_error], buffer, - 1)
      else
        (case resolve_sdk_dotnet_path (or_empty exe_dir) (or_empty working_dir) of
           (found, cli_sdk) \<Rightarrow>
             if \<not> found
             then Inr ([Trace_setup, Trace_info,
                        Resolve_sdk_dotnet_path (or_empty exe_dir) (or_empty working_dir)],
                       buffer, 0)
             else if length cli_sdk < nat (sint buffer_size)
             then
               (case buffer of
                  None \<Rightarrow> Inl Null_pointer
                | Some mem \<Rightarrow>
                    (case string_copy cli_sdk mem (nat (sint (buffer_size - 1))) of
                       (mem', len) \<Rightarrow>
                         if len \<noteq> length cli_sdk then Inl Assert_failed
                         else if \<not> len < nat (sint buffer_size) then Inl Assert_failed
                         else Inr ([Trace_setup, Trace_info,
                                    Resolve_sdk_dotnet_path (or_empty exe_dir)
                                      (or_empty working_dir)],
                                   Some (mem'(len := NUL)),
                                   word_of_nat (length cli_sdk + 1))))
             else Inr ([Trace_setup, Trace_info,
                        Resolve_sdk_dotnet_path (or_empty exe_dir) (or_empty working_dir),
                        Trace_info],
                       buffer, word_of_nat (length cli_sdk + 1))))"

text \<open>The first \<open>n\<close> cells of a buffer, as a string.\<close>

definition cells :: "buffer \<Rightarrow> nat \<Rightarrow> char list" where
  "cells mem n = map mem [0..<n]"

subsection \<open>hostfxr\_resolve\_sdk2\<close>

definition disallow_prerelease :: int32 where
  "disallow_prerelease = 0x1"

text \<open>
  The caller's \<^verbatim>\<open>result\<close> callback is a function pointer that the source calls without a
  test; each call is recorded with the key and the string passed.
\<close>

definition hostfxr_resolve_sdk2 ::
  "sdk_resolver2 \<Rightarrow> pal_string option \<Rightarrow> pal_string option \<Rightarrow> int32
    \<Rightarrow> event list \<times> int32" where
  "hostfxr_resolve_sdk2 resolve_sdk_dotnet_path exe_dir working_dir flags =
     (case resolve_sdk_dotnet_path (or_empty exe_dir) (or_empty working_dir)
             (flags AND disallow_prerelease \<noteq> 0) of
        (success, sdk_dir, json_path) \<Rightarrow>
          ([Trace_setup, Trace_info,
            Resolve_sdk_dotnet_path2 (or_empty exe_dir) (or_empty working_dir)
              (flags AND disallow_prerelease \<noteq> 0)]
           @ (if success then [Result_sdk2 resolved_sdk_dir sdk_dir] else [])
           @ (if json_path \<noteq> [] then [Result_sdk2 global_json_path json_path] else []),
           if success then Success else SdkResolverResolveFailure))"

text \<open>The values that the callback received under one key, in the order received.\<close>

fun result_values :: "hostfxr_resolve_sdk2_result_key_t \<Rightarrow> event list \<Rightarrow> pal_string list" where
  "result_values k [] = []"
| "result_values k (Result_sdk2 k' v # tr) =
     (if k' = k then v # result_values k tr else result_values k tr)"
| "result_values k (e # tr) = result_values k tr"

subsection \<open>hostfxr\_get\_available\_sdks\<close>

text \<open>
  Of \<^verbatim>\<open>sdk_info\<close> the source reads \<^verbatim>\<open>full_path\<close>; the version that the entry was parsed
  to is kept beside it. The type of versions is left open.
\<close>

record 'v sdk_info =
  version :: 'v
  full_path :: pal_string

text \<open>The loop that fills \<^verbatim>\<open>sdk_dirs\<close>, one \<^verbatim>\<open>push_back\<close> per entry.\<close>

fun push_back_paths :: "'v sdk_info list \<Rightarrow> pal_string list \<Rightarrow> pal_string list" where
  "push_back_paths [] sdk_dirs = sdk_dirs"
| "push_back_paths (info # infos) sdk_dirs = push_back_paths infos (sdk_dirs @ [full_path info])"

definition hostfxr_get_available_sdks ::
  "(pal_string \<Rightarrow> 'v sdk_info list) \<Rightarrow> pal_string option \<Rightarrow> event list \<times> int32" where
  "hostfxr_get_available_sdks get_all_sdk_infos exe_dir =
     (let sdk_infos = get_all_sdk_infos (or_empty exe_dir)
      in if sdk_infos = []
         then ([Trace_setup, Trace_info, Get_all_sdk_infos (or_empty exe_dir),
                Result_sdks 0 None], Success)
         else
           (let sdk_dirs = push_back_paths sdk_infos []
            in ([Trace_setup, Trace_info, Get_all_sdk_infos (or_empty exe_dir),
                 Result_sdks (word_of_nat (length sdk_dirs)) (Some sdk_dirs)], Success)))"

text \<open>The calls of the list callback, each with the array it received.\<close>

fun sdks_results :: "event list \<Rightarrow> pal_string list option list" where
  "sdks_results [] = []"
| "sdks_results (Result_sdks n dirs # tr) = dirs # sdks_results tr"
| "sdks_results (e # tr) = sdks_results tr"

subsection \<open>hostfxr\_get\_native\_search\_directories\<close>

definition hostfxr_get_native_search_directories ::
  "(int32 \<Rightarrow> pal_string list \<Rightarrow> 'startup)
    \<Rightarrow> (pal_string \<Rightarrow> int32 \<Rightarrow> pal_string list \<Rightarrow> 'startup \<Rightarrow> buffer option \<Rightarrow> int32
         \<Rightarrow> int32 option \<Rightarrow> int32 \<times> buffer option \<times> int32 option)
    \<Rightarrow> int32 \<Rightarrow> pal_string list \<Rightarrow> buffer option \<Rightarrow> int32 \<Rightarrow> int32 option
    \<Rightarrow> event list \<times> int32 \<times> buffer option \<times> int32 option" where
  "hostfxr_get_native_search_directories startup_info_parse muxer_execute argc argv buffer
      buffer_size required_buffer_size =
     (if sint buffer_size < 0 \<or> (0 < sint buffer_size \<and> buffer = None)
         \<or> required_buffer_size = None
      then ([Trace_setup, Trace_info, Trace_error], InvalidArgFailure, buffer,
            required_buffer_size)
      else
        (case muxer_execute ''get-native-search-directories'' argc argv
                (startup_info_parse argc argv) buffer buffer_size required_buffer_size of
           (rc, buffer', required_buffer_size') \<Rightarrow>
             ([Trace_setup, Trace_info, Startup_info_parse argc argv,
               Muxer_execute ''get-native-search-directories''],
              rc, buffer', required_buffer_size')))"

text \<open>The calls that belong to the diagnostics sink; every other call is work.\<close>

fun is_diagnostic :: "event \<Rightarrow> bool" where
  "is_diagnostic Trace_setup = True"
| "is_diagnostic Trace_info = True"
| "is_diagnostic Trace_error = True"
| "is_diagnostic Trace_flush = True"
| "is_diagnostic e = False"

definition work :: "event list \<Rightarrow> event list" where
  "work tr = filter (\<lambda>e. \<not> is_diagnostic e) tr"

section \<open>Collaborators described by the specification only\<close>

text \<open>
  Modelled from the spec: \<^verbatim>\<open>sdk_resolver_t::resolve_sdk_dotnet_path\<close> (sdk\_resolver.cpp)
  is not among the sources. The spec gives the resolver the interface
  \<^verbatim>\<open>resolve(exe_dir, working_dir, disallow_prerelease) -> (sdk_dir, global_json_path, found)\<close>
  and lets it discover global.json from the working directory upwards; the comment above
  \<^verbatim>\<open>hostfxr_resolve_sdk2\<close> says that the path of global.json is reported when global.json is
  used, and is not reported when no global.json was found or when its contents did not
  impact resolution. The search itself stays a parameter: which SDK it selected, which
  global.json it discovered, and whether that file constrained the selection.
\<close>

record sdk_search =
  selected_sdk :: "pal_string option"
  discovered_global_json :: "pal_string option"
  global_json_constrained :: bool

definition resolve_sdk_dotnet_path_spec ::
  "(pal_string \<Rightarrow> pal_string \<Rightarrow> bool \<Rightarrow> sdk_search) \<Rightarrow> sdk_resolver2" where
  "resolve_sdk_dotnet_path_spec search exe_dir working_dir disallow =
     (let s = search exe_dir working_dir disallow
      in (selected_sdk s \<noteq> None,
          or_empty (selected_sdk s),
          (case discovered_global_json s of
             None \<Rightarrow> []
           | Some path \<Rightarrow> if global_json_constrained s then path else [])))"

text \<open>
  Modelled from the spec: \<^verbatim>\<open>sdk_info::get_all_sdk_infos\<close> (sdk\_info.cpp) is not among the
  sources. The spec's \<^verbatim>\<open>enumerate(exe_dir)\<close> returns the discovered SDKs as a list ordered
  ascending by semantic version. The scan of the directories stays a parameter, and
  versions are compared by the linear order of their type.
\<close>

definition get_all_sdk_infos_spec ::
  "(pal_string \<Rightarrow> ('v :: linorder) sdk_info list) \<Rightarrow> pal_string \<Rightarrow> 'v sdk_info list" where
  "get_all_sdk_infos_spec scan exe_dir = sort_key version (scan exe_dir)"

section \<open>Sample installations\<close>

text \<open>
  A platform with one directory, \<^verbatim>\<open>/dotnet/host\<close>, that holds the module file. The
  parameters say whether the operating system accepts the file, which symbols the module
  exports, and what its \<^verbatim>\<open>load\<close> entry point returns.
\<close>

definition sample_env ::
  "bool \<Rightarrow> (string \<Rightarrow> fn_ptr option) \<Rightarrow> int32 \<Rightarrow> (unit, unit) host_env" where
  "sample_env loads symbols load_rc =
     \<lparr>LIBHOSTPOLICY_NAME = ''libhostpolicy.so'',
      library_exists_in_dir =
        (\<lambda>dir name. if dir = ''/dotnet/host'' then Some (dir @ ''/'' @ name) else None),
      load_library = (\<lambda>path. if loads then Some 1 else None),
      get_symbol = (\<lambda>h name. symbols name),
      get_host_init_data = (\<lambda>init. init),
      corehost_load = (\<lambda>f intf. load_rc),
      corehost_main = (\<lambda>f argc argv. 42),
      corehost_main_with_output_buffer =
        (\<lambda>f argc argv buf size required. (43, buf, required))\<rparr>"

definition all_symbols :: "string \<Rightarrow> fn_ptr option" where
  "all_symbols name =
     (if name = ''corehost_load'' then Some 10
      else if name = ''corehost_unload'' then Some 11
      else if name = ''corehost_main'' then Some 12
      else if name = ''corehost_main_with_output_buffer'' then Some 13
      else None)"

definition no_unload_symbol :: "string \<Rightarrow> fn_ptr option" where
  "no_unload_symbol name = (if name = ''corehost_unload'' then None else all_symbols name)"

text \<open>
  A resolver that finds the SDK \<^verbatim>\<open>/dotnet/sdk/2.1.0\<close> (17 characters) for the directory
  \<^verbatim>\<open>/dotnet\<close> and nothing elsewhere, and a buffer filled with dots.
\<close>

definition sample_resolver :: sdk_resolver where
  "sample_resolver exe_dir working_dir =
     (if exe_dir = ''/dotnet'' then (True, ''/dotnet/sdk/2.1.0'') else (False, []))"

definition blank_buffer :: buffer where
  "blank_buffer i = CHR ''.''"

text \<open>
  A search that discovers \<^verbatim>\<open>/work/global.json\<close> from the directory \<^verbatim>\<open>/work\<close>; the parameter
  says whether the file pins a version. From any other directory no global.json is found.
\<close>

definition sample_search :: "bool \<Rightarrow> pal_string \<Rightarrow> pal_string \<Rightarrow> bool \<Rightarrow> sdk_search" where
  "sample_search pinned exe_dir working_dir disallow =
     \<lparr>selected_sdk = Some ''/dotnet/sdk/2.1.0'',
      discovered_global_json =
        (if working_dir = ''/work'' then Some ''/work/global.json'' else None),
      global_json_constrained = pinned\<rparr>"

text \<open>
  The extended resolver for the same installation; no global.json takes part.
\<close>

definition sample_resolver2 :: sdk_resolver2 where
  "sample_resolver2 exe_dir working_dir disallow =
     (if exe_dir = ''/dotnet'' then (True, ''/dotnet/sdk/2.1.0'', []) else (False, [], []))"

text \<open>
  A resolver that fails because the version pinned by \<^verbatim>\<open>/work/global.json\<close> is not
  installed.
\<close>

definition failing_resolver :: sdk_resolver2 where
  "failing_resolver exe_dir working_dir disallow = (False, [], ''/work/global.json'')"

text \<open>
  Versions as major, minor, patch, a flag that is \<open>False\<close> for a prerelease, and the
  prerelease label, in lexicographic order; and a scan that finds the SDK directories
  \<^verbatim>\<open>2.1.0\<close>, \<^verbatim>\<open>3.0.0-preview\<close> and \<^verbatim>\<open>1.0.0\<close> in this order.
\<close>

type_synonym sem_ver = "nat \<times> nat \<times> nat \<times> bool \<times> string"

definition sample_scan :: "pal_string \<Rightarrow> sem_ver sdk_info list" where
  "sample_scan exe_dir =
     (if exe_dir = ''/dotnet''
      then [\<lparr>version = (2, 1, 0, True, []), full_path = ''/dotnet/sdk/2.1.0''\<rparr>,
            \<lparr>version = (3, 0, 0, False, ''preview''), full_path = ''/dotnet/sdk/3.0.0-preview''\<rparr>,
            \<lparr>version = (1, 0, 0, True, []), full_path = ''/dotnet/sdk/1.0.0''\<rparr>]
      else [])"


section \<open>Properties of the loader\<close>

lemma StatusCode_nonzero:
  "CoreHostLibMissingFailure \<noteq> Success" "CoreHostLibLoadFailure \<noteq> Success"
  "CoreHostEntryPointFailure \<noteq> Success" "InvalidArgFailure \<noteq> Success"
  "SdkResolverResolveFailure \<noteq> Success"
  by (simp_all add: StatusCode_defs)

lemma StatusCode_distinct:
  "CoreHostLibMissingFailure \<noteq> CoreHostLibLoadFailure"
  "CoreHostLibMissingFailure \<noteq> CoreHostEntryPointFailure"
  "CoreHostLibLoadFailure \<noteq> CoreHostEntryPointFailure"
  by (simp_all add: StatusCode_defs)

lemma load_host_library_common_cases:
  "load_host_library_common env d p lib =
     (case library_exists_in_dir env d (LIBHOSTPOLICY_NAME env) of
        None \<Rightarrow> ([Library_exists_in_dir d (LIBHOSTPOLICY_NAME env)],
                  CoreHostLibMissingFailure, p, lib)
      | Some path \<Rightarrow>
          (case load_library env path of
             None \<Rightarrow> ([Library_exists_in_dir d (LIBHOSTPOLICY_NAME env), Load_library path,
                        Trace_info], CoreHostLibLoadFailure, path, lib)
           | Some h \<Rightarrow>
               ([Library_exists_in_dir d (LIBHOSTPOLICY_NAME env), Load_library path,
                 Get_symbol h ''corehost_load'', Get_symbol h ''corehost_unload''],
                (if get_symbol env h ''corehost_load'' \<noteq> None \<and>
                    get_symbol env h ''corehost_unload'' \<noteq> None
                 then Success else CoreHostEntryPointFailure),
                path,
                lib\<lparr>h_host := Some h, load_fn := get_symbol env h ''corehost_load'',
                    unload_fn := get_symbol env h ''corehost_unload''\<rparr>)))"
  by (simp add: load_host_library_common_def Let_def split: option.splits)

lemma load_host_library_common_Success:
  assumes "load_host_library_common env d p lib = (tr, Success, p', lib')"
  obtains path h l u where
    "library_exists_in_dir env d (LIBHOSTPOLICY_NAME env) = Some path"
    "load_library env path = Some h"
    "get_symbol env h ''corehost_load'' = Some l"
    "get_symbol env h ''corehost_unload'' = Some u"
    "tr = [Library_exists_in_dir d (LIBHOSTPOLICY_NAME env), Load_library path,
           Get_symbol h ''corehost_load'', Get_symbol h ''corehost_unload'']"
    "lib' = lib\<lparr>h_host := Some h, load_fn := Some l, unload_fn := Some u\<rparr>"
  using assms
  by (auto simp: load_host_library_common_cases StatusCode_nonzero
           split: option.splits if_splits)

lemma load_host_library_Success:
  assumes "load_host_library env d lib = (tr, Success, lib')"
  obtains path h l u m where
    "library_exists_in_dir env d (LIBHOSTPOLICY_NAME env) = Some path"
    "load_library env path = Some h"
    "get_symbol env h ''corehost_load'' = Some l"
    "get_symbol env h ''corehost_unload'' = Some u"
    "get_symbol env h ''corehost_main'' = Some m"
    "tr = [Library_exists_in_dir d (LIBHOSTPOLICY_NAME env), Load_library path,
           Get_symbol h ''corehost_load'', Get_symbol h ''corehost_unload'',
           Get_symbol h ''corehost_main'']"
    "lib' = lib\<lparr>h_host := Some h, load_fn := Some l, unload_fn := Some u, main_fn := Some m\<rparr>"
  using assms
  by (auto simp: load_host_library_def load_host_library_common_cases StatusCode_nonzero
                 Let_def
           split: option.splits if_splits prod.splits)

lemma load_host_library_with_return_Success:
  assumes "load_host_library_with_return env d lib = (tr, Success, lib')"
  obtains path h l u m where
    "library_exists_in_dir env d (LIBHOSTPOLICY_NAME env) = Some path"
    "load_library env path = Some h"
    "get_symbol env h ''corehost_load'' = Some l"
    "get_symbol env h ''corehost_unload'' = Some u"
    "get_symbol env h ''corehost_main_with_output_buffer'' = Some m"
    "tr = [Library_exists_in_dir d (LIBHOSTPOLICY_NAME env), Load_library path,
           Get_symbol h ''corehost_load'', Get_symbol h ''corehost_unload'',
           Get_symbol h ''corehost_main_with_output_buffer'']"
    "lib' = lib\<lparr>h_host := Some h, load_fn := Some l, unload_fn := Some u, main_fn := Some m\<rparr>"
  using assms
  by (auto simp: load_host_library_with_return_def load_host_library_common_cases
                 StatusCode_nonzero Let_def
           split: option.splits if_splits prod.splits)


lemma load_host_library_cases:
  "load_host_library env d lib =
     (case load_host_library_common env d [] lib of
        (tr, rc, host_path, lib') \<Rightarrow>
          (case h_host lib' of
             Some h \<Rightarrow>
               if rc = Success
               then (tr @ [Get_symbol h ''corehost_main''],
                     (if get_symbol env h ''corehost_main'' \<noteq> None
                      then Success else CoreHostEntryPointFailure),
                     lib'\<lparr>main_fn := get_symbol env h ''corehost_main''\<rparr>)
               else (tr, rc, lib')
           | None \<Rightarrow> (tr, rc, lib')))"
  by (simp add: load_host_library_def Let_def split: prod.splits option.splits)

lemma load_host_library_with_return_cases:
  "load_host_library_with_return env d lib =
     (case load_host_library_common env d [] lib of
        (tr, rc, host_path, lib') \<Rightarrow>
          (case h_host lib' of
             Some h \<Rightarrow>
               if rc = Success
               then (tr @ [Get_symbol h ''corehost_main_with_output_buffer''],
                     (if get_symbol env h ''corehost_main_with_output_buffer'' \<noteq> None
                      then Success else CoreHostEntryPointFailure),
                     lib'\<lparr>main_fn := get_symbol env h ''corehost_main_with_output_buffer''\<rparr>)
               else (tr, rc, lib')
           | None \<Rightarrow> (tr, rc, lib')))"
  by (simp add: load_host_library_with_return_def Let_def split: prod.splits option.splits)

text \<open>
  C8. The loader reports success only with both mandatory entry points resolved. For a
  module file that is found and that the operating system loads,
  \<open>load_host_library_common\<close> returns \<open>Success\<close> exactly when \<^verbatim>\<open>corehost_load\<close> and
  \<^verbatim>\<open>corehost_unload\<close> are both found and \<open>CoreHostEntryPointFailure\<close> when either is
  missing. The entry point of the calling convention is looked up afterwards, by
  \<open>load_host_library\<close> or \<open>load_host_library_with_return\<close>, only when the common part
  succeeded, and it is checked on its own.
\<close>

theorem loader_entry_points_all_or_nothing:
  "(fst (snd (load_host_library_common env d p lib)) = Success \<longrightarrow>
      h_host (snd (snd (snd (load_host_library_common env d p lib)))) \<noteq> None
      \<and> load_fn (snd (snd (snd (load_host_library_common env d p lib)))) \<noteq> None
      \<and> unload_fn (snd (snd (snd (load_host_library_common env d p lib)))) \<noteq> None)
   \<and> (library_exists_in_dir env d (LIBHOSTPOLICY_NAME env) = Some path
        \<and> load_library env path = Some h \<longrightarrow>
      (\<exists>tr lib'.
         load_host_library_common env d p lib =
           (tr,
            (if get_symbol env h ''corehost_load'' \<noteq> None
                \<and> get_symbol env h ''corehost_unload'' \<noteq> None
             then Success else CoreHostEntryPointFailure),
            path, lib')
         \<and> load_fn lib' = get_symbol env h ''corehost_load''
         \<and> unload_fn lib' = get_symbol env h ''corehost_unload''
         \<and> load_host_library env d lib =
             (if get_symbol env h ''corehost_load'' \<noteq> None
                 \<and> get_symbol env h ''corehost_unload'' \<noteq> None
              then (tr @ [Get_symbol h ''corehost_main''],
                    (if get_symbol env h ''corehost_main'' \<noteq> None
                     then Success else CoreHostEntryPointFailure),
                    lib'\<lparr>main_fn := get_symbol env h ''corehost_main''\<rparr>)
              else (tr, CoreHostEntryPointFailure, lib'))
         \<and> load_host_library_with_return env d lib =
             (if get_symbol env h ''corehost_load'' \<noteq> None
                 \<and> get_symbol env h ''corehost_unload'' \<noteq> None
              then (tr @ [Get_symbol h ''corehost_main_with_output_buffer''],
                    (if get_symbol env h ''corehost_main_with_output_buffer'' \<noteq> None
                     then Success else CoreHostEntryPointFailure),
                    lib'\<lparr>main_fn := get_symbol env h ''corehost_main_with_output_buffer''\<rparr>)
              else (tr, CoreHostEntryPointFailure, lib'))
         \<and> filter is_loader_call tr =
             [Load_library path, Get_symbol h ''corehost_load'',
              Get_symbol h ''corehost_unload'']))"
proof (intro conjI impI)
  obtain tr rc p' lib' where
    call: "load_host_library_common env d p lib = (tr, rc, p', lib')"
    by (cases "load_host_library_common env d p lib")
  assume "fst (snd (load_host_library_common env d p lib)) = Success"
  with call have "load_host_library_common env d p lib = (tr, Success, p', lib')"
    by simp
  then have "h_host lib' \<noteq> None \<and> load_fn lib' \<noteq> None \<and> unload_fn lib' \<noteq> None"
    by (auto elim!: load_host_library_common_Success)
  with call show
    "h_host (snd (snd (snd (load_host_library_common env d p lib)))) \<noteq> None"
    "load_fn (snd (snd (snd (load_host_library_common env d p lib)))) \<noteq> None"
    "unload_fn (snd (snd (snd (load_host_library_common env d p lib)))) \<noteq> None"
    by simp_all
next
  assume found: "library_exists_in_dir env d (LIBHOSTPOLICY_NAME env) = Some path
    \<and> load_library env path = Some h"
  then show "\<exists>tr lib'.
         load_host_library_common env d p lib =
           (tr,
            (if get_symbol env h ''corehost_load'' \<noteq> None
                \<and> get_symbol env h ''corehost_unload'' \<noteq> None
             then Success else CoreHostEntryPointFailure),
            path, lib')
         \<and> load_fn lib' = get_symbol env h ''corehost_load''
         \<and> unload_fn lib' = get_symbol env h ''corehost_unload''
         \<and> load_host_library env d lib =
             (if get_symbol env h ''corehost_load'' \<noteq> None
                 \<and> get_symbol env h ''corehost_unload'' \<noteq> None
              then (tr @ [Get_symbol h ''corehost_main''],
                    (if get_symbol env h ''corehost_main'' \<noteq> None
                     then Success else CoreHostEntryPointFailure),
                    lib'\<lparr>main_fn := get_symbol env h ''corehost_main''\<rparr>)
              else (tr, CoreHostEntryPointFailure, lib'))
         \<and> load_host_library_with_return env d lib =
             (if get_symbol env h ''corehost_load'' \<noteq> None
                 \<and> get_symbol env h ''corehost_unload'' \<noteq> None
              then (tr @ [Get_symbol h ''corehost_main_with_output_buffer''],
                    (if get_symbol env h ''corehost_main_with_output_buffer'' \<noteq> None
                     then Success else CoreHostEntryPointFailure),
                    lib'\<lparr>main_fn := get_symbol env h ''corehost_main_with_output_buffer''\<rparr>)
              else (tr, CoreHostEntryPointFailure, lib'))
         \<and> filter is_loader_call tr =
             [Load_library path, Get_symbol h ''corehost_load'',
              Get_symbol h ''corehost_unload'']"
    by (simp add: load_host_library_cases load_host_library_with_return_cases
                  load_host_library_common_cases StatusCode_nonzero)
qed

text \<open>
  C9. When the module file is absent from the directory, loading returns
  \<open>CoreHostLibMissingFailure\<close> after the existence test alone: no library load and no
  symbol lookup is attempted. \<open>CoreHostLibLoadFailure\<close> is returned only when the file
  was found and the operating system rejected it, and \<open>CoreHostEntryPointFailure\<close> only
  when the module was loaded and a required symbol is absent.
\<close>

theorem loader_failure_codes:
  "(library_exists_in_dir env d (LIBHOSTPOLICY_NAME env) = None \<longrightarrow>
      load_host_library_common env d p lib =
        ([Library_exists_in_dir d (LIBHOSTPOLICY_NAME env)], CoreHostLibMissingFailure, p, lib)
      \<and> load_host_library env d lib =
        ([Library_exists_in_dir d (LIBHOSTPOLICY_NAME env)], CoreHostLibMissingFailure, lib)
      \<and> load_host_library_with_return env d lib =
        ([Library_exists_in_dir d (LIBHOSTPOLICY_NAME env)], CoreHostLibMissingFailure, lib)
      \<and> filter is_loader_call (fst (load_host_library_common env d p lib)) = [])
   \<and> (fst (snd (load_host_library_common env d p lib)) = CoreHostLibLoadFailure \<longrightarrow>
        (\<exists>path. library_exists_in_dir env d (LIBHOSTPOLICY_NAME env) = Some path
           \<and> load_library env path = None
           \<and> filter is_loader_call (fst (load_host_library_common env d p lib))
               = [Load_library path]))
   \<and> (fst (snd (load_host_library_common env d p lib)) = CoreHostEntryPointFailure \<longrightarrow>
        (\<exists>path h. library_exists_in_dir env d (LIBHOSTPOLICY_NAME env) = Some path
           \<and> load_library env path = Some h
           \<and> (get_symbol env h ''corehost_load'' = None
                \<or> get_symbol env h ''corehost_unload'' = None)))
   \<and> (fst (snd (load_host_library env d lib)) = CoreHostEntryPointFailure \<longrightarrow>
        (\<exists>path h. library_exists_in_dir env d (LIBHOSTPOLICY_NAME env) = Some path
           \<and> load_library env path = Some h
           \<and> (get_symbol env h ''corehost_load'' = None
                \<or> get_symbol env h ''corehost_unload'' = None
                \<or> get_symbol env h ''corehost_main'' = None)))
   \<and> (fst (snd (load_host_library_with_return env d lib)) = CoreHostEntryPointFailure \<longrightarrow>
        (\<exists>path h. library_exists_in_dir env d (LIBHOSTPOLICY_NAME env) = Some path
           \<and> load_library env path = Some h
           \<and> (get_symbol env h ''corehost_load'' = None
                \<or> get_symbol env h ''corehost_unload'' = None
                \<or> get_symbol env h ''corehost_main_with_output_buffer'' = None)))"
proof (intro conjI impI)
  assume "library_exists_in_dir env d (LIBHOSTPOLICY_NAME env) = None"
  then show "load_host_library_common env d p lib =
        ([Library_exists_in_dir d (LIBHOSTPOLICY_NAME env)], CoreHostLibMissingFailure, p, lib)"
    and "load_host_library env d lib =
        ([Library_exists_in_dir d (LIBHOSTPOLICY_NAME env)], CoreHostLibMissingFailure, lib)"
    and "load_host_library_with_return env d lib =
        ([Library_exists_in_dir d (LIBHOSTPOLICY_NAME env)], CoreHostLibMissingFailure, lib)"
    and "filter is_loader_call (fst (load_host_library_common env d p lib)) = []"
    by (simp_all add: load_host_library_def load_host_library_with_return_def
                      load_host_library_common_cases StatusCode_nonzero)
next
  assume "fst (snd (load_host_library_common env d p lib)) = CoreHostLibLoadFailure"
  then show "\<exists>path. library_exists_in_dir env d (LIBHOSTPOLICY_NAME env) = Some path
           \<and> load_library env path = None
           \<and> filter is_loader_call (fst (load_host_library_common env d p lib))
               = [Load_library path]"
    by (auto simp: load_host_library_common_cases StatusCode_defs
             split: option.splits if_splits)
next
  assume "fst (snd (load_host_library_common env d p lib)) = CoreHostEntryPointFailure"
  then show "\<exists>path h. library_exists_in_dir env d (LIBHOSTPOLICY_NAME env) = Some path
           \<and> load_library env path = Some h
           \<and> (get_symbol env h ''corehost_load'' = None
                \<or> get_symbol env h ''corehost_unload'' = None)"
    by (auto simp: load_host_library_common_cases StatusCode_defs
             split: option.splits if_splits)
next
  assume "fst (snd (load_host_library env d lib)) = CoreHostEntryPointFailure"
  then show "\<exists>path h. library_exists_in_dir env d (LIBHOSTPOLICY_NAME env) = Some path
           \<and> load_library env path = Some h
           \<and> (get_symbol env h ''corehost_load'' = None
                \<or> get_symbol env h ''corehost_unload'' = None
                \<or> get_symbol env h ''corehost_main'' = None)"
    by (auto simp: load_host_library_cases load_host_library_common_cases StatusCode_defs
             split: option.splits if_splits)
next
  assume "fst (snd (load_host_library_with_return env d lib)) = CoreHostEntryPointFailure"
  then show "\<exists>path h. library_exists_in_dir env d (LIBHOSTPOLICY_NAME env) = Some path
           \<and> load_library env path = Some h
           \<and> (get_symbol env h ''corehost_load'' = None
                \<or> get_symbol env h ''corehost_unload'' = None
                \<or> get_symbol env h ''corehost_main_with_output_buffer'' = None)"
    by (auto simp: load_host_library_with_return_cases load_host_library_common_cases
                   StatusCode_defs
             split: option.splits if_splits)
qed

theorem loader_entry_points_all_or_nothing_witness:
  "library_exists_in_dir (sample_env True no_unload_symbol 0) ''/dotnet/host''
       (LIBHOSTPOLICY_NAME (sample_env True no_unload_symbol 0))
     = Some ''/dotnet/host/libhostpolicy.so''
   \<and> load_library (sample_env True no_unload_symbol 0) ''/dotnet/host/libhostpolicy.so''
     = Some 1
   \<and> fst (snd (load_host_library_common (sample_env True no_unload_symbol 0)
                 ''/dotnet/host'' [] no_library)) = CoreHostEntryPointFailure
   \<and> fst (snd (load_host_library (sample_env True no_unload_symbol 0)
                 ''/dotnet/host'' no_library)) = CoreHostEntryPointFailure
   \<and> fst (snd (load_host_library_common (sample_env True all_symbols 0)
                 ''/dotnet/host'' [] no_library)) = Success
   \<and> load_fn (snd (snd (snd (load_host_library_common (sample_env True all_symbols 0)
                 ''/dotnet/host'' [] no_library)))) = Some 10
   \<and> unload_fn (snd (snd (snd (load_host_library_common (sample_env True all_symbols 0)
                 ''/dotnet/host'' [] no_library)))) = Some 11
   \<and> fst (snd (load_host_library (sample_env True all_symbols 0)
                 ''/dotnet/host'' no_library)) = Success
   \<and> fst (snd (load_host_library_with_return (sample_env True all_symbols 0)
                 ''/dotnet/host'' no_library)) = Success"
  using loader_entry_points_all_or_nothing
          [of "sample_env True no_unload_symbol 0" "''/dotnet/host''" "[]" no_library
              "''/dotnet/host/libhostpolicy.so''" 1]
        loader_entry_points_all_or_nothing
          [of "sample_env True all_symbols 0" "''/dotnet/host''" "[]" no_library
              "''/dotnet/host/libhostpolicy.so''" 1]
  by (auto simp: sample_env_def all_symbols_def no_unload_symbol_def)

theorem loader_failure_codes_witness:
  "library_exists_in_dir (sample_env True all_symbols 0) ''/empty''
       (LIBHOSTPOLICY_NAME (sample_env True all_symbols 0)) = None
   \<and> load_host_library_common (sample_env True all_symbols 0) ''/empty'' [] no_library
     = ([Library_exists_in_dir ''/empty'' ''libhostpolicy.so''],
        CoreHostLibMissingFailure, [], no_library)
   \<and> load_host_library (sample_env True all_symbols 0) ''/empty'' no_library
     = ([Library_exists_in_dir ''/empty'' ''libhostpolicy.so''],
        CoreHostLibMissingFailure, no_library)
   \<and> fst (snd (load_host_library_common (sample_env False all_symbols 0)
                 ''/dotnet/host'' [] no_library)) = CoreHostLibLoadFailure
   \<and> load_library (sample_env False all_symbols 0) ''/dotnet/host/libhostpolicy.so'' = None
   \<and> fst (snd (load_host_library_common (sample_env True no_unload_symbol 0)
                 ''/dotnet/host'' [] no_library)) = CoreHostEntryPointFailure
   \<and> (get_symbol (sample_env True no_unload_symbol 0) 1 ''corehost_load'' = None
        \<or> get_symbol (sample_env True no_unload_symbol 0) 1 ''corehost_unload'' = None)"
proof -
  have rejected: "fst (snd (load_host_library_common (sample_env False all_symbols 0)
      ''/dotnet/host'' [] no_library)) = CoreHostLibLoadFailure"
    by (simp add: load_host_library_common_cases sample_env_def)
  have incomplete: "fst (snd (load_host_library_common (sample_env True no_unload_symbol 0)
      ''/dotnet/host'' [] no_library)) = CoreHostEntryPointFailure"
    by (simp add: load_host_library_common_cases sample_env_def no_unload_symbol_def)
  show ?thesis
    using loader_failure_codes
            [of "sample_env True all_symbols 0" "''/empty''" "[]" no_library]
          loader_failure_codes
            [of "sample_env False all_symbols 0" "''/dotnet/host''" "[]" no_library]
          loader_failure_codes
            [of "sample_env True no_unload_symbol 0" "''/dotnet/host''" "[]" no_library]
          rejected incomplete
    by (auto simp: sample_env_def)
qed

section \<open>Properties of the dispatcher\<close>

lemma lifecycle_append:
  "lifecycle (xs @ ys) = lifecycle xs @ lifecycle ys"
  by (simp add: lifecycle_def)

lemma execute_app_loaded:
  assumes "load_host_library env dir no_library = (tr, Success, lib)"
  obtains h l m u where
    "h_host lib = Some h" "load_fn lib = Some l" "main_fn lib = Some m" "unload_fn lib = Some u"
    "lifecycle tr = []"
    "execute_app env dir init argc argv =
       (if corehost_load env l (get_host_init_data env init) = 0
        then Inr (tr @ [Trace_flush, Get_host_init_data, Host_load l, Host_main m,
                        Host_unload u, Unload_library h],
                  corehost_main env m argc argv)
        else Inr (tr @ [Trace_flush, Get_host_init_data, Host_load l, Unload_library h],
                  corehost_load env l (get_host_init_data env init)))"
proof -
  from assms obtain path h l u m where
    tr: "tr = [Library_exists_in_dir dir (LIBHOSTPOLICY_NAME env), Load_library path,
           Get_symbol h ''corehost_load'', Get_symbol h ''corehost_unload'',
           Get_symbol h ''corehost_main'']"
    and lib: "lib = no_library\<lparr>h_host := Some h, load_fn := Some l, unload_fn := Some u,
           main_fn := Some m\<rparr>"
    by (rule load_host_library_Success)
  have "lifecycle tr = []"
    by (simp add: tr lifecycle_def)
  moreover have "execute_app env dir init argc argv =
       (if corehost_load env l (get_host_init_data env init) = 0
        then Inr (tr @ [Trace_flush, Get_host_init_data, Host_load l, Host_main m,
                        Host_unload u, Unload_library h],
                  corehost_main env m argc argv)
        else Inr (tr @ [Trace_flush, Get_host_init_data, Host_load l, Unload_library h],
                  corehost_load env l (get_host_init_data env init)))"
    by (simp add: execute_app_def assms lib Let_def)
  ultimately show thesis
    using that [of h l m u] by (simp add: lib)
qed

lemma execute_host_command_loaded:
  assumes "load_host_library_with_return env dir no_library = (tr, Success, lib)"
  obtains h l m u where
    "h_host lib = Some h" "load_fn lib = Some l" "main_fn lib = Some m" "unload_fn lib = Some u"
    "lifecycle tr = []"
    "execute_host_command env dir init argc argv buf bsize required =
       (if corehost_load env l (get_host_init_data env init) = 0
        then Inr (tr @ [Trace_flush, Get_host_init_data, Host_load l,
                        Host_main_with_output_buffer m, Host_unload u, Unload_library h],
                  corehost_main_with_output_buffer env m argc argv buf bsize required)
        else Inr (tr @ [Trace_flush, Get_host_init_data, Host_load l, Unload_library h],
                  corehost_load env l (get_host_init_data env init), buf, required))"
proof -
  from assms obtain path h l u m where
    tr: "tr = [Library_exists_in_dir dir (LIBHOSTPOLICY_NAME env), Load_library path,
           Get_symbol h ''corehost_load'', Get_symbol h ''corehost_unload'',
           Get_symbol h ''corehost_main_with_output_buffer'']"
    and lib: "lib = no_library\<lparr>h_host := Some h, load_fn := Some l, unload_fn := Some u,
           main_fn := Some m\<rparr>"
    by (rule load_host_library_with_return_Success)
  have "lifecycle tr = []"
    by (simp add: tr lifecycle_def)
  moreover have "execute_host_command env dir init argc argv buf bsize required =
       (if corehost_load env l (get_host_init_data env init) = 0
        then Inr (tr @ [Trace_flush, Get_host_init_data, Host_load l,
                        Host_main_with_output_buffer m, Host_unload u, Unload_library h],
                  corehost_main_with_output_buffer env m argc argv buf bsize required)
        else Inr (tr @ [Trace_flush, Get_host_init_data, Host_load l, Unload_library h],
                  corehost_load env l (get_host_init_data env init), buf, required))"
    by (simp add: execute_host_command_def assms lib Let_def split: prod.splits)
  ultimately show thesis
    using that [of h l m u] by (simp add: lib)
qed

text \<open>
  Both dispatchers return on every input: the entry points that they call are the ones
  that the loader has just found.
\<close>

lemma execute_app_returns:
  "\<exists>tr code. execute_app env dir init argc argv = Inr (tr, code)"
proof -
  obtain tr code lib where
    loaded: "load_host_library env dir no_library = (tr, code, lib)"
    by (cases "load_host_library env dir no_library")
  show ?thesis
  proof (cases "code = Success")
    case False
    with loaded show ?thesis
      by (simp add: execute_app_def)
  next
    case True
    with loaded have "load_host_library env dir no_library = (tr, Success, lib)"
      by simp
    then show ?thesis
      by (rule execute_app_loaded [where init = init and argc = argc and argv = argv])
         (simp split: if_splits)
  qed
qed

lemma execute_host_command_returns:
  "\<exists>tr code buf' required'.
     execute_host_command env dir init argc argv buf bsize required =
       Inr (tr, code, buf', required')"
proof -
  obtain tr code lib where
    loaded: "load_host_library_with_return env dir no_library = (tr, code, lib)"
    by (cases "load_host_library_with_return env dir no_library")
  show ?thesis
  proof (cases "code = Success")
    case False
    with loaded show ?thesis
      by (simp add: execute_host_command_def)
  next
    case True
    with loaded have "load_host_library_with_return env dir no_library = (tr, Success, lib)"
      by simp
    then obtain h l m u where
      run: "execute_host_command env dir init argc argv buf bsize required =
       (if corehost_load env l (get_host_init_data env init) = 0
        then Inr (tr @ [Trace_flush, Get_host_init_data, Host_load l,
                        Host_main_with_output_buffer m, Host_unload u, Unload_library h],
                  corehost_main_with_output_buffer env m argc argv buf bsize required)
        else Inr (tr @ [Trace_flush, Get_host_init_data, Host_load l, Unload_library h],
                  corehost_load env l (get_host_init_data env init), buf, required))"
      by (rule execute_host_command_loaded)
    then show ?thesis
      by (cases "corehost_main_with_output_buffer env m argc argv buf bsize required")
         (simp split: if_splits)
  qed
qed

text \<open>
  C1. Whenever the library loads and its entry points resolve, both dispatchers call the
  module's \<^verbatim>\<open>load\<close> entry point once. If it returns non-zero, neither \<^verbatim>\<open>main\<close> nor the
  module's \<^verbatim>\<open>unload\<close> entry point is called, the native module is still unloaded from
  the process as the last step of the call, and the result is \<^verbatim>\<open>load\<close>'s. If it returns
  zero, \<^verbatim>\<open>main\<close> is called, then \<^verbatim>\<open>unload\<close>, then the native module is unloaded, and the
  result is \<^verbatim>\<open>main\<close>'s, whatever it is.
\<close>

theorem dispatch_load_result_gates_main_and_unload:
  "(load_host_library env dir no_library = (tr, Success, lib) \<longrightarrow>
      (\<exists>h l m u tr'.
         h_host lib = Some h \<and> load_fn lib = Some l \<and> main_fn lib = Some m
         \<and> unload_fn lib = Some u
         \<and> execute_app env dir init argc argv =
             Inr (tr', if corehost_load env l (get_host_init_data env init) = 0
                       then corehost_main env m argc argv
                       else corehost_load env l (get_host_init_data env init))
         \<and> lifecycle tr' =
             (if corehost_load env l (get_host_init_data env init) = 0
              then [Host_load l, Host_main m, Host_unload u, Unload_library h]
              else [Host_load l, Unload_library h])
         \<and> last tr' = Unload_library h))
   \<and> (load_host_library_with_return env dir no_library = (trw, Success, libw) \<longrightarrow>
      (\<exists>h l m u tr'.
         h_host libw = Some h \<and> load_fn libw = Some l \<and> main_fn libw = Some m
         \<and> unload_fn libw = Some u
         \<and> (\<exists>buf' required'.
              execute_host_command env dir init argc argv buf bsize required =
                Inr (tr', if corehost_load env l (get_host_init_data env init) = 0
                          then fst (corehost_main_with_output_buffer env m argc argv
                                      buf bsize required)
                          else corehost_load env l (get_host_init_data env init),
                     buf', required'))
         \<and> lifecycle tr' =
             (if corehost_load env l (get_host_init_data env init) = 0
              then [Host_load l, Host_main_with_output_buffer m, Host_unload u,
                    Unload_library h]
              else [Host_load l, Unload_library h])
         \<and> last tr' = Unload_library h))"
proof (intro conjI impI)
  assume "load_host_library env dir no_library = (tr, Success, lib)"
  then obtain h l m u where
    ptrs: "h_host lib = Some h" "load_fn lib = Some l" "main_fn lib = Some m"
      "unload_fn lib = Some u"
    and quiet: "lifecycle tr = []"
    and run: "execute_app env dir init argc argv =
       (if corehost_load env l (get_host_init_data env init) = 0
        then Inr (tr @ [Trace_flush, Get_host_init_data, Host_load l, Host_main m,
                        Host_unload u, Unload_library h],
                  corehost_main env m argc argv)
        else Inr (tr @ [Trace_flush, Get_host_init_data, Host_load l, Unload_library h],
                  corehost_load env l (get_host_init_data env init)))"
    by (rule execute_app_loaded)
  show "\<exists>h l m u tr'.
         h_host lib = Some h \<and> load_fn lib = Some l \<and> main_fn lib = Some m
         \<and> unload_fn lib = Some u
         \<and> execute_app env dir init argc argv =
             Inr (tr', if corehost_load env l (get_host_init_data env init) = 0
                       then corehost_main env m argc argv
                       else corehost_load env l (get_host_init_data env init))
         \<and> lifecycle tr' =
             (if corehost_load env l (get_host_init_data env init) = 0
              then [Host_load l, Host_main m, Host_unload u, Unload_library h]
              else [Host_load l, Unload_library h])
         \<and> last tr' = Unload_library h"
    using ptrs quiet run
    by (cases "corehost_load env l (get_host_init_data env init) = 0")
       (simp_all add: lifecycle_append, simp_all add: lifecycle_def)
next
  assume "load_host_library_with_return env dir no_library = (trw, Success, libw)"
  then obtain h l m u where
    ptrs: "h_host libw = Some h" "load_fn libw = Some l" "main_fn libw = Some m"
      "unload_fn libw = Some u"
    and quiet: "lifecycle trw = []"
    and run: "execute_host_command env dir init argc argv buf bsize required =
       (if corehost_load env l (get_host_init_data env init) = 0
        then Inr (trw @ [Trace_flush, Get_host_init_data, Host_load l,
                        Host_main_with_output_buffer m, Host_unload u, Unload_library h],
                  corehost_main_with_output_buffer env m argc argv buf bsize required)
        else Inr (trw @ [Trace_flush, Get_host_init_data, Host_load l, Unload_library h],
                  corehost_load env l (get_host_init_data env init), buf, required))"
    by (rule execute_host_command_loaded)
  show "\<exists>h l m u tr'.
         h_host libw = Some h \<and> load_fn libw = Some l \<and> main_fn libw = Some m
         \<and> unload_fn libw = Some u
         \<and> (\<exists>buf' required'.
              execute_host_command env dir init argc argv buf bsize required =
                Inr (tr', if corehost_load env l (get_host_init_data env init) = 0
                          then fst (corehost_main_with_output_buffer env m argc argv
                                      buf bsize required)
                          else corehost_load env l (get_host_init_data env init),
                     buf', required'))
         \<and> lifecycle tr' =
             (if corehost_load env l (get_host_init_data env init) = 0
              then [Host_load l, Host_main_with_output_buffer m, Host_unload u,
                    Unload_library h]
              else [Host_load l, Unload_library h])
         \<and> last tr' = Unload_library h"
    using ptrs quiet run
    by (cases "corehost_load env l (get_host_init_data env init) = 0";
        cases "corehost_main_with_output_buffer env m argc argv buf bsize required")
       (simp_all add: lifecycle_append, simp_all add: lifecycle_def)
qed

theorem dispatch_load_result_gates_main_and_unload_witness:
  "load_host_library (sample_env True all_symbols 5) ''/dotnet/host'' no_library =
     ([Library_exists_in_dir ''/dotnet/host'' ''libhostpolicy.so'',
       Load_library ''/dotnet/host/libhostpolicy.so'',
       Get_symbol 1 ''corehost_load'', Get_symbol 1 ''corehost_unload'',
       Get_symbol 1 ''corehost_main''],
      Success,
      \<lparr>h_host = Some 1, load_fn = Some 10, unload_fn = Some 11, main_fn = Some 12\<rparr>)
   \<and> (\<exists>tr'. execute_app (sample_env True all_symbols 5) ''/dotnet/host'' () 0 [] = Inr (tr', 5)
          \<and> lifecycle tr' = [Host_load 10, Unload_library 1]
          \<and> last tr' = Unload_library 1)
   \<and> (\<exists>tr'. execute_app (sample_env True all_symbols 0) ''/dotnet/host'' () 0 [] = Inr (tr', 42)
          \<and> lifecycle tr' = [Host_load 10, Host_main 12, Host_unload 11, Unload_library 1]
          \<and> last tr' = Unload_library 1)
   \<and> load_host_library_with_return (sample_env True all_symbols 0) ''/dotnet/host'' no_library =
     ([Library_exists_in_dir ''/dotnet/host'' ''libhostpolicy.so'',
       Load_library ''/dotnet/host/libhostpolicy.so'',
       Get_symbol 1 ''corehost_load'', Get_symbol 1 ''corehost_unload'',
       Get_symbol 1 ''corehost_main_with_output_buffer''],
      Success,
      \<lparr>h_host = Some 1, load_fn = Some 10, unload_fn = Some 11, main_fn = Some 13\<rparr>)
   \<and> (\<exists>tr' buf' required'.
          execute_host_command (sample_env True all_symbols 0) ''/dotnet/host'' () 0 []
            None 0 (Some 0) = Inr (tr', 43, buf', required')
          \<and> lifecycle tr' =
              [Host_load 10, Host_main_with_output_buffer 13, Host_unload 11, Unload_library 1]
          \<and> last tr' = Unload_library 1)
   \<and> (\<exists>tr' buf' required'.
          execute_host_command (sample_env True all_symbols 5) ''/dotnet/host'' () 0 []
            None 0 (Some 0) = Inr (tr', 5, buf', required')
          \<and> lifecycle tr' = [Host_load 10, Unload_library 1]
          \<and> last tr' = Unload_library 1)"
proof -
  let ?lib = "\<lparr>h_host = Some 1, load_fn = Some 10, unload_fn = Some 11, main_fn = Some 12\<rparr>"
  let ?libw = "\<lparr>h_host = Some 1, load_fn = Some 10, unload_fn = Some 11, main_fn = Some 13\<rparr>"
  let ?tr = "[Library_exists_in_dir ''/dotnet/host'' ''libhostpolicy.so'',
       Load_library ''/dotnet/host/libhostpolicy.so'',
       Get_symbol 1 ''corehost_load'', Get_symbol 1 ''corehost_unload'',
       Get_symbol 1 ''corehost_main'']"
  let ?trw = "[Library_exists_in_dir ''/dotnet/host'' ''libhostpolicy.so'',
       Load_library ''/dotnet/host/libhostpolicy.so'',
       Get_symbol 1 ''corehost_load'', Get_symbol 1 ''corehost_unload'',
       Get_symbol 1 ''corehost_main_with_output_buffer'']"
  have app: "load_host_library (sample_env True all_symbols rc) ''/dotnet/host'' no_library =
      (?tr, Success, ?lib)" for rc
    by (simp add: load_host_library_cases load_host_library_common_cases sample_env_def
                  all_symbols_def no_library_def)
  have cmd: "load_host_library_with_return (sample_env True all_symbols rc) ''/dotnet/host''
      no_library = (?trw, Success, ?libw)" for rc
    by (simp add: load_host_library_with_return_cases load_host_library_common_cases
                  sample_env_def all_symbols_def no_library_def)
  have sel: "corehost_load (sample_env True all_symbols rc) 10
               (get_host_init_data (sample_env True all_symbols rc) ()) = rc"
    "corehost_main (sample_env True all_symbols rc) 12 0 [] = 42"
    "corehost_main_with_output_buffer (sample_env True all_symbols rc) 13 0 [] None 0 (Some 0)
       = (43, None, Some 0)" for rc
    by (simp_all add: sample_env_def)
  show ?thesis
    using dispatch_load_result_gates_main_and_unload
            [where env = "sample_env True all_symbols 5" and dir = "''/dotnet/host''"
               and tr = ?tr and lib = ?lib and trw = ?trw and libw = ?libw and init = "()"
               and argc = 0 and argv = "[]" and buf = None and bsize = 0
               and required = "Some 0"]
          dispatch_load_result_gates_main_and_unload
            [where env = "sample_env True all_symbols 0" and dir = "''/dotnet/host''"
               and tr = ?tr and lib = ?lib and trw = ?trw and libw = ?libw and init = "()"
               and argc = 0 and argv = "[]" and buf = None and bsize = 0
               and required = "Some 0"]
          app [of 5] app [of 0] cmd [of 5] cmd [of 0] sel [of 5] sel [of 0]
    by auto
qed

section \<open>Properties of the legacy SDK resolution\<close>

lemma sint_pred:
  assumes "0 < sint (n :: int32)"
  shows "sint (n - 1) = sint n - 1"
proof -
  have "sint n < 2 ^ 31"
    using sint_lt [of n] by simp
  with assms have "signed_take_bit 31 (sint n - 1) = sint n - 1"
    by (intro signed_take_bit_int_eq_self) simp_all
  then show ?thesis
    by (simp add: sint_word_diff)
qed

lemma sint_of_nat_small:
  assumes "k < 2 ^ 31"
  shows "sint (word_of_nat k :: int32) = int k"
proof -
  from assms have "int k < 2 ^ 31"
    by (metis of_nat_less_numeral_power_cancel_iff)
  then have "signed_take_bit 31 (int k) = int k"
    by (intro signed_take_bit_int_eq_self) simp_all
  moreover have "sint (word_of_nat k :: int32) = signed_take_bit 31 (int k)"
    using sint_sbintrunc' [where 'a = 32, of "int k"] by simp
  ultimately show ?thesis
    by simp
qed

lemma write_chars_at:
  "write_chars mem i s j = (if i \<le> j \<and> j < i + length s then s ! (j - i) else mem j)"
  by (induction s arbitrary: mem i) (auto simp: nth_Cons')

lemma cells_written:
  "cells ((write_chars mem 0 s)(length s := c)) (length s + 1) = s @ [c]"
proof (rule nth_equalityI)
  show "length (cells ((write_chars mem 0 s)(length s := c)) (length s + 1)) = length (s @ [c])"
    by (simp add: cells_def)
next
  fix i
  assume "i < length (cells ((write_chars mem 0 s)(length s := c)) (length s + 1))"
  then have "i < length s + 1"
    by (simp add: cells_def)
  then show "cells ((write_chars mem 0 s)(length s := c)) (length s + 1) ! i = (s @ [c]) ! i"
    unfolding cells_def
    by (cases "i = length s") (simp_all add: write_chars_at nth_append del: upt_Suc)
qed

lemma string_copy_whole:
  assumes "length s \<le> cnt"
  shows "string_copy s dest cnt = (write_chars dest 0 s, length s)"
  using assms by (simp add: string_copy_def Let_def min_def)

text \<open>
  With valid arguments and a path found, the call returns: neither assertion fails and
  no null pointer is written through.
\<close>

lemma hostfxr_resolve_sdk_found:
  assumes valid: "\<not> (sint buffer_size < 0 \<or> (0 < sint buffer_size \<and> buffer = None))"
    and found: "resolve (or_empty exe_dir) (or_empty working_dir) = (True, cli_sdk)"
  shows "hostfxr_resolve_sdk resolve exe_dir working_dir buffer buffer_size =
     (if length cli_sdk < nat (sint buffer_size)
      then Inr ([Trace_setup, Trace_info,
                 Resolve_sdk_dotnet_path (or_empty exe_dir) (or_empty working_dir)],
                map_option (\<lambda>mem. (write_chars mem 0 cli_sdk)(length cli_sdk := NUL)) buffer,
                word_of_nat (length cli_sdk + 1))
      else Inr ([Trace_setup, Trace_info,
                 Resolve_sdk_dotnet_path (or_empty exe_dir) (or_empty working_dir),
                 Trace_info],
                buffer, word_of_nat (length cli_sdk + 1)))"
proof (cases "length cli_sdk < nat (sint buffer_size)")
  case False
  with valid found show ?thesis
    by (simp add: hostfxr_resolve_sdk_def)
next
  case True
  then have pos: "0 < sint buffer_size"
    by simp
  with valid obtain mem where mem: "buffer = Some mem"
    by auto
  from pos True have "length cli_sdk \<le> nat (sint (buffer_size - 1))"
    by (simp add: sint_pred)
  then have "string_copy cli_sdk mem (nat (sint (buffer_size - 1))) =
      (write_chars mem 0 cli_sdk, length cli_sdk)"
    by (rule string_copy_whole)
  with valid found True mem show ?thesis
    by (simp add: hostfxr_resolve_sdk_def)
qed

lemma hostfxr_resolve_sdk_returns:
  "\<exists>tr buffer' r.
     hostfxr_resolve_sdk resolve exe_dir working_dir buffer buffer_size = Inr (tr, buffer', r)"
proof (cases "sint buffer_size < 0 \<or> (0 < sint buffer_size \<and> buffer = None)")
  case True
  then show ?thesis
    by (simp add: hostfxr_resolve_sdk_def)
next
  case valid: False
  obtain found cli_sdk where
    res: "resolve (or_empty exe_dir) (or_empty working_dir) = (found, cli_sdk)"
    by (cases "resolve (or_empty exe_dir) (or_empty working_dir)")
  show ?thesis
  proof (cases found)
    case False
    with valid res show ?thesis
      by (simp add: hostfxr_resolve_sdk_def)
  next
    case True
    with res have "resolve (or_empty exe_dir) (or_empty working_dir) = (True, cli_sdk)"
      by simp
    from hostfxr_resolve_sdk_found
           [where resolve = resolve and exe_dir = exe_dir and working_dir = working_dir,
            OF valid this]
    show ?thesis
      by (simp split: if_splits)
  qed
qed

text \<open>
  C3. Both operations that accept a buffer reject a negative \<^verbatim>\<open>buffer_size\<close> and a positive
  \<^verbatim>\<open>buffer_size\<close> with a null buffer, and \<open>hostfxr_get_native_search_directories\<close> also a
  null \<^verbatim>\<open>required_buffer_size\<close>. The call returns the operation's invalid-argument code
  (\<open>-1\<close> for \<open>hostfxr_resolve_sdk\<close>, \<open>InvalidArgFailure\<close> for the other) after calls to the
  diagnostics sink alone: the resolver, the start-up parser and the muxer are not reached,
  and the buffer and the required size are left as they were.
\<close>

theorem invalid_buffer_arguments_rejected_before_work:
  "(sint buffer_size < 0 \<or> (0 < sint buffer_size \<and> buffer = None) \<longrightarrow>
      hostfxr_resolve_sdk resolve exe_dir working_dir buffer buffer_size =
        Inr ([Trace_setup, Trace_info, Trace_error], buffer, - 1))
   \<and> (sint buffer_size < 0 \<or> (0 < sint buffer_size \<and> buffer = None)
        \<or> required_buffer_size = None \<longrightarrow>
      hostfxr_get_native_search_directories startup_info_parse muxer_execute argc argv
          buffer buffer_size required_buffer_size =
        ([Trace_setup, Trace_info, Trace_error], InvalidArgFailure, buffer,
         required_buffer_size))
   \<and> work [Trace_setup, Trace_info, Trace_error] = []
   \<and> sint (- 1 :: int32) < 0
   \<and> InvalidArgFailure \<noteq> Success"
  by (simp add: hostfxr_resolve_sdk_def hostfxr_get_native_search_directories_def work_def
                StatusCode_defs)

theorem invalid_buffer_arguments_rejected_before_work_witness:
  "sint (- 5 :: int32) < 0
   \<and> hostfxr_resolve_sdk sample_resolver (Some ''/dotnet'') None (Some blank_buffer) (- 5) =
       Inr ([Trace_setup, Trace_info, Trace_error], Some blank_buffer, - 1)
   \<and> hostfxr_resolve_sdk sample_resolver (Some ''/dotnet'') None None 18 =
       Inr ([Trace_setup, Trace_info, Trace_error], None, - 1)
   \<and> hostfxr_get_native_search_directories (\<lambda>argc argv. ()) (\<lambda>c argc argv s b n r. (0, b, r))
         1 [''dotnet''] (Some blank_buffer) 18 None =
       ([Trace_setup, Trace_info, Trace_error], InvalidArgFailure, Some blank_buffer, None)"
  using invalid_buffer_arguments_rejected_before_work
          [where buffer_size = "- 5" and buffer = "Some blank_buffer"
             and resolve = sample_resolver and exe_dir = "Some ''/dotnet''"
             and working_dir = None and required_buffer_size = None
             and startup_info_parse = "\<lambda>argc argv. ()"
             and muxer_execute = "\<lambda>c argc argv s b n r. (0, b, r)"
             and argc = 1 and argv = "[''dotnet'']"]
        invalid_buffer_arguments_rejected_before_work
          [where buffer_size = 18 and buffer = None
             and resolve = sample_resolver and exe_dir = "Some ''/dotnet''"
             and working_dir = None and required_buffer_size = None
             and startup_info_parse = "\<lambda>argc argv. ()"
             and muxer_execute = "\<lambda>c argc argv s b n r. (0, b, r)"
             and argc = 1 and argv = "[''dotnet'']"]
        invalid_buffer_arguments_rejected_before_work
          [where buffer_size = 18 and buffer = "Some blank_buffer"
             and resolve = sample_resolver and exe_dir = "Some ''/dotnet''"
             and working_dir = None and required_buffer_size = None
             and startup_info_parse = "\<lambda>argc argv. ()"
             and muxer_execute = "\<lambda>c argc argv s b n r. (0, b, r)"
             and argc = 1 and argv = "[''dotnet'']"]
  by simp

text \<open>
  C2. The resolver's answer names a directory of the file system, so its length with the
  terminator is a number that \<^verbatim>\<open>int32_t\<close> holds. In a call of \<open>hostfxr_resolve_sdk\<close> that
  reaches the resolver and in which the resolver finds such a path: when the required
  capacity (length plus terminator) exceeds \<^verbatim>\<open>buffer_size\<close>, the buffer is left exactly as
  it was and the call returns the required capacity; when the required capacity is at
  most \<^verbatim>\<open>buffer_size\<close>, the path is copied to the start of the buffer and terminated by
  NUL, the cells behind the terminator keep their contents, and the same required
  capacity is returned.
\<close>

theorem resolve_sdk_buffer_negotiation:
  assumes valid: "\<not> (sint buffer_size < 0 \<or> (0 < sint buffer_size \<and> buffer = None))"
    and found: "resolve (or_empty exe_dir) (or_empty working_dir) = (True, cli_sdk)"
    and bound: "length cli_sdk + 1 < 2 ^ 31"
  shows
    "(sint buffer_size < int (length cli_sdk + 1) \<longrightarrow>
        (\<exists>tr r. hostfxr_resolve_sdk resolve exe_dir working_dir buffer buffer_size =
                  Inr (tr, buffer, r)
               \<and> sint r = int (length cli_sdk + 1)))
     \<and> (int (length cli_sdk + 1) \<le> sint buffer_size \<longrightarrow>
        (\<exists>tr mem mem' r.
            buffer = Some mem
            \<and> hostfxr_resolve_sdk resolve exe_dir working_dir buffer buffer_size =
                Inr (tr, Some mem', r)
            \<and> sint r = int (length cli_sdk + 1)
            \<and> cells mem' (length cli_sdk + 1) = cli_sdk @ [NUL]
            \<and> (\<forall>i. length cli_sdk < i \<longrightarrow> mem' i = mem i)))"
proof (intro conjI impI)
  have exact: "sint (word_of_nat (length cli_sdk + 1) :: int32) = int (length cli_sdk + 1)"
    using bound by (rule sint_of_nat_small)
  {
    assume "sint buffer_size < int (length cli_sdk + 1)"
    with valid have "\<not> length cli_sdk < nat (sint buffer_size)"
      by auto
    then have "hostfxr_resolve_sdk resolve exe_dir working_dir buffer buffer_size =
        Inr ([Trace_setup, Trace_info,
              Resolve_sdk_dotnet_path (or_empty exe_dir) (or_empty working_dir), Trace_info],
             buffer, word_of_nat (length cli_sdk + 1))"
      using hostfxr_resolve_sdk_found
              [where resolve = resolve and exe_dir = exe_dir and working_dir = working_dir,
               OF valid found]
      by simp
    with exact show "\<exists>tr r. hostfxr_resolve_sdk resolve exe_dir working_dir buffer buffer_size =
                  Inr (tr, buffer, r)
               \<and> sint r = int (length cli_sdk + 1)"
      by blast
  }
  {
    assume fits: "int (length cli_sdk + 1) \<le> sint buffer_size"
    then have less: "length cli_sdk < nat (sint buffer_size)"
      by auto
    with valid obtain mem where mem: "buffer = Some mem"
      by auto
    let ?mem' = "(write_chars mem 0 cli_sdk)(length cli_sdk := NUL)"
    have "hostfxr_resolve_sdk resolve exe_dir working_dir buffer buffer_size =
        Inr ([Trace_setup, Trace_info,
              Resolve_sdk_dotnet_path (or_empty exe_dir) (or_empty working_dir)],
             Some ?mem', word_of_nat (length cli_sdk + 1))"
      using hostfxr_resolve_sdk_found
              [where resolve = resolve and exe_dir = exe_dir and working_dir = working_dir,
               OF valid found] less mem
      by simp
    moreover have "cells ?mem' (length cli_sdk + 1) = cli_sdk @ [NUL]"
      by (rule cells_written)
    moreover have "\<forall>i. length cli_sdk < i \<longrightarrow> ?mem' i = mem i"
      by (simp add: write_chars_at)
    ultimately show "\<exists>tr mem mem' r.
            buffer = Some mem
            \<and> hostfxr_resolve_sdk resolve exe_dir working_dir buffer buffer_size =
                Inr (tr, Some mem', r)
            \<and> sint r = int (length cli_sdk + 1)
            \<and> cells mem' (length cli_sdk + 1) = cli_sdk @ [NUL]
            \<and> (\<forall>i. length cli_sdk < i \<longrightarrow> mem' i = mem i)"
      using mem exact by blast
  }
qed

theorem resolve_sdk_buffer_negotiation_witness:
  "\<not> (sint (4 :: int32) < 0 \<or> (0 < sint (4 :: int32) \<and> Some blank_buffer = None))
   \<and> sample_resolver (or_empty (Some ''/dotnet'')) (or_empty None) = (True, ''/dotnet/sdk/2.1.0'')
   \<and> length ''/dotnet/sdk/2.1.0'' + 1 < (2 :: nat) ^ 31
   \<and> (\<exists>tr r. hostfxr_resolve_sdk sample_resolver (Some ''/dotnet'') None (Some blank_buffer) 4 =
               Inr (tr, Some blank_buffer, r) \<and> sint r = 18)
   \<and> (\<exists>tr mem' r. hostfxr_resolve_sdk sample_resolver (Some ''/dotnet'') None
                   (Some blank_buffer) 18 = Inr (tr, Some mem', r)
          \<and> sint r = 18
          \<and> cells mem' 18 = ''/dotnet/sdk/2.1.0'' @ [NUL]
          \<and> mem' 18 = CHR ''.'')"
proof -
  have found: "sample_resolver (or_empty (Some ''/dotnet'')) (or_empty None) =
      (True, ''/dotnet/sdk/2.1.0'')"
    by (simp add: sample_resolver_def or_empty_def)
  have small: "\<not> (sint (4 :: int32) < 0 \<or> (0 < sint (4 :: int32) \<and> Some blank_buffer = None))"
    by simp
  have large: "\<not> (sint (18 :: int32) < 0 \<or> (0 < sint (18 :: int32) \<and> Some blank_buffer = None))"
    by simp
  have bound: "length ''/dotnet/sdk/2.1.0'' + 1 < (2 :: nat) ^ 31"
    by simp
  have len: "length ''/dotnet/sdk/2.1.0'' + 1 = 18" "length ''/dotnet/sdk/2.1.0'' = 17"
    by simp_all
  from resolve_sdk_buffer_negotiation
         [where resolve = sample_resolver and exe_dir = "Some ''/dotnet''"
            and working_dir = None, OF small found bound]
  have "\<exists>tr r. hostfxr_resolve_sdk sample_resolver (Some ''/dotnet'') None (Some blank_buffer) 4 =
               Inr (tr, Some blank_buffer, r) \<and> sint r = 18"
    unfolding len by simp
  moreover from resolve_sdk_buffer_negotiation
         [where resolve = sample_resolver and exe_dir = "Some ''/dotnet''"
            and working_dir = None, OF large found bound]
  have "\<exists>tr mem' r. hostfxr_resolve_sdk sample_resolver (Some ''/dotnet'') None
                   (Some blank_buffer) 18 = Inr (tr, Some mem', r)
          \<and> sint r = 18
          \<and> cells mem' 18 = ''/dotnet/sdk/2.1.0'' @ [NUL]
          \<and> mem' 18 = CHR ''.''"
    unfolding len by (auto simp: blank_buffer_def)
  ultimately show ?thesis
    using found small bound by blast
qed

lemma hostfxr_resolve_sdk_positive:
  assumes call: "hostfxr_resolve_sdk resolve exe_dir working_dir buffer buffer_size =
      Inr (tr, buffer', r)"
    and pos: "0 < sint r"
  shows "\<not> (sint buffer_size < 0 \<or> (0 < sint buffer_size \<and> buffer = None))"
    and "fst (resolve (or_empty exe_dir) (or_empty working_dir))"
    and "r = word_of_nat (length (snd (resolve (or_empty exe_dir) (or_empty working_dir))) + 1)"
proof -
  show valid: "\<not> (sint buffer_size < 0 \<or> (0 < sint buffer_size \<and> buffer = None))"
  proof
    assume "sint buffer_size < 0 \<or> (0 < sint buffer_size \<and> buffer = None)"
    with call have "r = - 1"
      by (simp add: hostfxr_resolve_sdk_def)
    with pos show False
      by simp
  qed
  obtain found cli_sdk where
    res: "resolve (or_empty exe_dir) (or_empty working_dir) = (found, cli_sdk)"
    by (cases "resolve (or_empty exe_dir) (or_empty working_dir)")
  show found: "fst (resolve (or_empty exe_dir) (or_empty working_dir))"
  proof (rule ccontr)
    assume "\<not> fst (resolve (or_empty exe_dir) (or_empty working_dir))"
    with res have "resolve (or_empty exe_dir) (or_empty working_dir) = (False, cli_sdk)"
      by simp
    with valid have "hostfxr_resolve_sdk resolve exe_dir working_dir buffer buffer_size =
        Inr ([Trace_setup, Trace_info,
              Resolve_sdk_dotnet_path (or_empty exe_dir) (or_empty working_dir)], buffer, 0)"
      by (simp add: hostfxr_resolve_sdk_def)
    with call have "r = 0"
      by simp
    with pos show False
      by simp
  qed
  with res have "resolve (or_empty exe_dir) (or_empty working_dir) = (True, cli_sdk)"
    by simp
  from hostfxr_resolve_sdk_found
         [where resolve = resolve and exe_dir = exe_dir and working_dir = working_dir,
          OF valid this] call
  have "r = word_of_nat (length cli_sdk + 1)"
    by (simp split: if_splits)
  with res show "r = word_of_nat
      (length (snd (resolve (or_empty exe_dir) (or_empty working_dir))) + 1)"
    by simp
qed

text \<open>
  C4. The resolver's answer names a directory of the file system, so its length with the
  terminator is a number that \<^verbatim>\<open>int32_t\<close> holds. Let a call of \<open>hostfxr_resolve_sdk\<close> with
  such a resolver return a positive \<open>r\<close> that is at most \<^verbatim>\<open>buffer_size\<close>. Then the path
  was copied, \<open>r\<close> is its length plus one, and the same call with a non-null buffer and
  \<^verbatim>\<open>buffer_size\<close> equal to \<open>r\<close> makes the same calls, returns \<open>r\<close> again and leaves the
  same null-terminated string in the first \<open>r\<close> cells.
\<close>

theorem resolve_sdk_retry_with_reported_size:
  assumes first: "hostfxr_resolve_sdk resolve exe_dir working_dir buffer buffer_size =
      Inr (tr, buffer', r)"
    and pos: "0 < sint r"
    and fits: "sint r \<le> sint buffer_size"
    and bound: "length (snd (resolve (or_empty exe_dir) (or_empty working_dir))) + 1 < 2 ^ 31"
  shows "\<exists>mem' mem2'.
      buffer' = Some mem'
      \<and> sint r = int (length (snd (resolve (or_empty exe_dir) (or_empty working_dir))) + 1)
      \<and> cells mem' (nat (sint r)) =
          snd (resolve (or_empty exe_dir) (or_empty working_dir)) @ [NUL]
      \<and> hostfxr_resolve_sdk resolve exe_dir working_dir (Some mem2) r =
          Inr (tr, Some mem2', r)
      \<and> cells mem2' (nat (sint r)) = cells mem' (nat (sint r))"
proof -
  define cli_sdk where "cli_sdk = snd (resolve (or_empty exe_dir) (or_empty working_dir))"
  note facts = hostfxr_resolve_sdk_positive [OF first pos]
  have valid: "\<not> (sint buffer_size < 0 \<or> (0 < sint buffer_size \<and> buffer = None))"
    by (rule facts(1))
  have found: "resolve (or_empty exe_dir) (or_empty working_dir) = (True, cli_sdk)"
    using facts(2) by (simp add: cli_sdk_def prod_eq_iff)
  have r: "r = word_of_nat (length cli_sdk + 1)"
    using facts(3) by (simp add: cli_sdk_def)
  have "length cli_sdk + 1 < 2 ^ 31"
    using bound by (simp add: cli_sdk_def)
  then have exact: "sint r = int (length cli_sdk + 1)"
    unfolding r by (rule sint_of_nat_small)
  with fits have less: "length cli_sdk < nat (sint buffer_size)"
    by simp
  with valid obtain mem where mem: "buffer = Some mem"
    by auto
  let ?tr = "[Trace_setup, Trace_info,
              Resolve_sdk_dotnet_path (or_empty exe_dir) (or_empty working_dir)]"
  have "hostfxr_resolve_sdk resolve exe_dir working_dir buffer buffer_size =
      Inr (?tr, Some ((write_chars mem 0 cli_sdk)(length cli_sdk := NUL)), r)"
    using hostfxr_resolve_sdk_found
            [where resolve = resolve and exe_dir = exe_dir and working_dir = working_dir,
             OF valid found] less mem r
    by simp
  with first have tr: "tr = ?tr"
    and buffer': "buffer' = Some ((write_chars mem 0 cli_sdk)(length cli_sdk := NUL))"
    by simp_all
  have valid2: "\<not> (sint r < 0 \<or> (0 < sint r \<and> Some mem2 = None))"
    using pos by simp
  have less2: "length cli_sdk < nat (sint r)"
    using exact by simp
  have second: "hostfxr_resolve_sdk resolve exe_dir working_dir (Some mem2) r =
      Inr (tr, Some ((write_chars mem2 0 cli_sdk)(length cli_sdk := NUL)), r)"
    using hostfxr_resolve_sdk_found
            [where resolve = resolve and exe_dir = exe_dir and working_dir = working_dir,
             OF valid2 found] less2 r tr
    by simp
  have n: "nat (sint r) = length cli_sdk + 1"
    using exact by simp
  have "cells ((write_chars mem 0 cli_sdk)(length cli_sdk := NUL)) (nat (sint r)) =
      cli_sdk @ [NUL]"
    and "cells ((write_chars mem2 0 cli_sdk)(length cli_sdk := NUL)) (nat (sint r)) =
      cli_sdk @ [NUL]"
    unfolding n by (rule cells_written)+
  with buffer' second exact show ?thesis
    unfolding cli_sdk_def [symmetric] by simp
qed

theorem resolve_sdk_retry_with_reported_size_witness:
  "(\<exists>tr buffer'.
      hostfxr_resolve_sdk sample_resolver (Some ''/dotnet'') None (Some blank_buffer) 40 =
        Inr (tr, buffer', 18))
   \<and> 0 < sint (18 :: int32) \<and> sint (18 :: int32) \<le> sint (40 :: int32)
   \<and> length (snd (sample_resolver (or_empty (Some ''/dotnet'')) (or_empty None))) + 1
       < (2 :: nat) ^ 31
   \<and> (\<exists>tr mem2'.
      hostfxr_resolve_sdk sample_resolver (Some ''/dotnet'') None (Some blank_buffer) 18 =
        Inr (tr, Some mem2', 18)
      \<and> cells mem2' 18 = ''/dotnet/sdk/2.1.0'' @ [NUL])"
proof -
  have found: "sample_resolver (or_empty (Some ''/dotnet'')) (or_empty None) =
      (True, ''/dotnet/sdk/2.1.0'')"
    by (simp add: sample_resolver_def or_empty_def)
  have valid: "\<not> (sint (40 :: int32) < 0 \<or> (0 < sint (40 :: int32) \<and> Some blank_buffer = None))"
    by simp
  have len: "length ''/dotnet/sdk/2.1.0'' + 1 = 18" "length ''/dotnet/sdk/2.1.0'' = 17"
    by simp_all
  have first: "hostfxr_resolve_sdk sample_resolver (Some ''/dotnet'') None (Some blank_buffer) 40
      = Inr ([Trace_setup, Trace_info,
              Resolve_sdk_dotnet_path (or_empty (Some ''/dotnet'')) (or_empty None)],
             Some ((write_chars blank_buffer 0 ''/dotnet/sdk/2.1.0'')(17 := NUL)), 18)"
    using hostfxr_resolve_sdk_found
            [where resolve = sample_resolver and exe_dir = "Some ''/dotnet''"
               and working_dir = None, OF valid found]
    unfolding len by simp
  have pos: "0 < sint (18 :: int32)" and fits: "sint (18 :: int32) \<le> sint (40 :: int32)"
    by simp_all
  have bound: "length (snd (sample_resolver (or_empty (Some ''/dotnet'')) (or_empty None))) + 1
      < (2 :: nat) ^ 31"
    unfolding found by simp
  from resolve_sdk_retry_with_reported_size
         [where resolve = sample_resolver and exe_dir = "Some ''/dotnet''"
            and working_dir = None and ?mem2.0 = blank_buffer, OF first pos fits bound]
  have "\<exists>tr mem2'.
      hostfxr_resolve_sdk sample_resolver (Some ''/dotnet'') None (Some blank_buffer) 18 =
        Inr (tr, Some mem2', 18)
      \<and> cells mem2' 18 = ''/dotnet/sdk/2.1.0'' @ [NUL]"
    unfolding found by auto
  with first pos fits bound show ?thesis
    by blast
qed

section \<open>Properties of the extended SDK resolution\<close>

lemma hostfxr_resolve_sdk2_cases:
  assumes "resolve (or_empty exe_dir) (or_empty working_dir)
             (flags AND disallow_prerelease \<noteq> 0) = (success, sdk_dir, json_path)"
  shows "hostfxr_resolve_sdk2 resolve exe_dir working_dir flags =
     ([Trace_setup, Trace_info,
       Resolve_sdk_dotnet_path2 (or_empty exe_dir) (or_empty working_dir)
         (flags AND disallow_prerelease \<noteq> 0)]
      @ (if success then [Result_sdk2 resolved_sdk_dir sdk_dir] else [])
      @ (if json_path \<noteq> [] then [Result_sdk2 global_json_path json_path] else []),
      if success then Success else SdkResolverResolveFailure)"
  using assms by (simp add: hostfxr_resolve_sdk2_def)

text \<open>
  C5. \<open>hostfxr_resolve_sdk2\<close> calls the callback with the key \<open>resolved_sdk_dir\<close> exactly
  when the resolver reports success, once, with the directory that the resolver stored;
  it returns \<open>Success\<close>, which is 0, when the resolver succeeds and
  \<open>SdkResolverResolveFailure\<close>, which is not 0, otherwise.
\<close>

theorem resolve_sdk2_resolved_dir_iff_success:
  assumes "resolve (or_empty exe_dir) (or_empty working_dir)
             (flags AND disallow_prerelease \<noteq> 0) = (success, sdk_dir, json_path)"
  shows "result_values resolved_sdk_dir
           (fst (hostfxr_resolve_sdk2 resolve exe_dir working_dir flags)) =
           (if success then [sdk_dir] else [])
     \<and> snd (hostfxr_resolve_sdk2 resolve exe_dir working_dir flags) =
           (if success then Success else SdkResolverResolveFailure)
     \<and> (snd (hostfxr_resolve_sdk2 resolve exe_dir working_dir flags) = Success) = success
     \<and> Success = 0"
  using hostfxr_resolve_sdk2_cases
          [where resolve = resolve and exe_dir = exe_dir and working_dir = working_dir
         and flags = flags, OF assms]
  by (simp add: StatusCode_nonzero) (simp add: Success_def)

text \<open>
  C10. When the resolver fails and still leaves a non-empty path of global.json, the
  callback is called with the key \<open>global_json_path\<close> and that path, it is not called with
  the key \<open>resolved_sdk_dir\<close>, and the call returns \<open>SdkResolverResolveFailure\<close>.
\<close>

theorem resolve_sdk2_global_json_reported_on_failure:
  assumes "resolve (or_empty exe_dir) (or_empty working_dir)
             (flags AND disallow_prerelease \<noteq> 0) = (False, sdk_dir, json_path)"
    and "json_path \<noteq> []"
  shows "hostfxr_resolve_sdk2 resolve exe_dir working_dir flags =
           ([Trace_setup, Trace_info,
             Resolve_sdk_dotnet_path2 (or_empty exe_dir) (or_empty working_dir)
               (flags AND disallow_prerelease \<noteq> 0),
             Result_sdk2 global_json_path json_path],
            SdkResolverResolveFailure)
     \<and> result_values global_json_path
           (fst (hostfxr_resolve_sdk2 resolve exe_dir working_dir flags)) = [json_path]
     \<and> result_values resolved_sdk_dir
           (fst (hostfxr_resolve_sdk2 resolve exe_dir working_dir flags)) = []"
  using hostfxr_resolve_sdk2_cases
          [where resolve = resolve and exe_dir = exe_dir and working_dir = working_dir
         and flags = flags, OF assms(1)] assms(2)
  by simp

text \<open>
  C6. With a resolver that reports the path of global.json as the specification says, the
  callback is called with the key \<open>global_json_path\<close> exactly when a global.json was
  discovered and constrained the outcome, once, with the path of that file (which is not
  the empty string); when no global.json is present the callback is never called with
  this key.
\<close>

theorem resolve_sdk2_global_json_iff_constraining:
  assumes "search (or_empty exe_dir) (or_empty working_dir)
             (flags AND disallow_prerelease \<noteq> 0) = s"
    and "discovered_global_json s \<noteq> Some []"
  shows "result_values global_json_path
           (fst (hostfxr_resolve_sdk2 (resolve_sdk_dotnet_path_spec search)
                   exe_dir working_dir flags)) =
           (case discovered_global_json s of
              None \<Rightarrow> []
            | Some path \<Rightarrow> if global_json_constrained s then [path] else [])"
proof -
  have "resolve_sdk_dotnet_path_spec search (or_empty exe_dir) (or_empty working_dir)
          (flags AND disallow_prerelease \<noteq> 0) =
        (selected_sdk s \<noteq> None, or_empty (selected_sdk s),
         (case discovered_global_json s of
            None \<Rightarrow> []
          | Some path \<Rightarrow> if global_json_constrained s then path else []))"
    using assms(1) by (simp add: resolve_sdk_dotnet_path_spec_def Let_def)
  from hostfxr_resolve_sdk2_cases
         [where resolve = "resolve_sdk_dotnet_path_spec search" and exe_dir = exe_dir
            and working_dir = working_dir and flags = flags, OF this] assms(2)
  show ?thesis
    by (simp split: option.splits)
qed

theorem resolve_sdk2_resolved_dir_iff_success_witness:
  "sample_resolver2 (or_empty (Some ''/dotnet'')) (or_empty None)
       ((0 :: int32) AND disallow_prerelease \<noteq> 0) = (True, ''/dotnet/sdk/2.1.0'', [])
   \<and> result_values resolved_sdk_dir
         (fst (hostfxr_resolve_sdk2 sample_resolver2 (Some ''/dotnet'') None 0)) =
         [''/dotnet/sdk/2.1.0'']
   \<and> snd (hostfxr_resolve_sdk2 sample_resolver2 (Some ''/dotnet'') None 0) = Success
   \<and> sample_resolver2 (or_empty None) (or_empty None)
       ((0 :: int32) AND disallow_prerelease \<noteq> 0) = (False, [], [])
   \<and> result_values resolved_sdk_dir
         (fst (hostfxr_resolve_sdk2 sample_resolver2 None None 0)) = []
   \<and> snd (hostfxr_resolve_sdk2 sample_resolver2 None None 0) = SdkResolverResolveFailure"
proof -
  have found: "sample_resolver2 (or_empty (Some ''/dotnet'')) (or_empty None)
      ((0 :: int32) AND disallow_prerelease \<noteq> 0) = (True, ''/dotnet/sdk/2.1.0'', [])"
    by (simp add: sample_resolver2_def or_empty_def)
  have missing: "sample_resolver2 (or_empty None) (or_empty None)
      ((0 :: int32) AND disallow_prerelease \<noteq> 0) = (False, [], [])"
    by (simp add: sample_resolver2_def or_empty_def)
  show ?thesis
    using resolve_sdk2_resolved_dir_iff_success
            [where resolve = sample_resolver2 and exe_dir = "Some ''/dotnet''"
               and working_dir = None and flags = 0, OF found]
          resolve_sdk2_resolved_dir_iff_success
            [where resolve = sample_resolver2 and exe_dir = None
               and working_dir = None and flags = 0, OF missing]
          found missing
    by simp
qed

theorem resolve_sdk2_global_json_reported_on_failure_witness:
  "failing_resolver (or_empty None) (or_empty (Some ''/work''))
       ((1 :: int32) AND disallow_prerelease \<noteq> 0) = (False, [], ''/work/global.json'')
   \<and> ''/work/global.json'' \<noteq> []
   \<and> hostfxr_resolve_sdk2 failing_resolver None (Some ''/work'') 1 =
       ([Trace_setup, Trace_info, Resolve_sdk_dotnet_path2 [] ''/work'' True,
         Result_sdk2 global_json_path ''/work/global.json''],
        SdkResolverResolveFailure)"
proof -
  have failed: "failing_resolver (or_empty None) (or_empty (Some ''/work''))
      ((1 :: int32) AND disallow_prerelease \<noteq> 0) = (False, [], ''/work/global.json'')"
    by (simp add: failing_resolver_def)
  have named: "''/work/global.json'' \<noteq> []"
    by simp
  show ?thesis
    using resolve_sdk2_global_json_reported_on_failure
            [where resolve = failing_resolver and exe_dir = None
               and working_dir = "Some ''/work''" and flags = 1, OF failed named]
          failed
    by (simp add: or_empty_def disallow_prerelease_def)
qed

theorem resolve_sdk2_global_json_iff_constraining_witness:
  "discovered_global_json
       (sample_search True (or_empty None) (or_empty (Some ''/work''))
          ((0 :: int32) AND disallow_prerelease \<noteq> 0)) \<noteq> Some []
   \<and> result_values global_json_path
         (fst (hostfxr_resolve_sdk2 (resolve_sdk_dotnet_path_spec (sample_search True))
                 None (Some ''/work'') 0)) = [''/work/global.json'']
   \<and> result_values global_json_path
         (fst (hostfxr_resolve_sdk2 (resolve_sdk_dotnet_path_spec (sample_search False))
                 None (Some ''/work'') 0)) = []
   \<and> result_values global_json_path
         (fst (hostfxr_resolve_sdk2 (resolve_sdk_dotnet_path_spec (sample_search True))
                 None (Some ''/elsewhere'') 0)) = []"
  using resolve_sdk2_global_json_iff_constraining
          [where search = "sample_search True" and exe_dir = None
             and working_dir = "Some ''/work''" and flags = 0, OF refl]
        resolve_sdk2_global_json_iff_constraining
          [where search = "sample_search False" and exe_dir = None
             and working_dir = "Some ''/work''" and flags = 0, OF refl]
        resolve_sdk2_global_json_iff_constraining
          [where search = "sample_search True" and exe_dir = None
             and working_dir = "Some ''/elsewhere''" and flags = 0, OF refl]
  by (simp add: sample_search_def or_empty_def)

section \<open>Properties of the SDK enumeration\<close>

lemma push_back_paths_map:
  "push_back_paths infos sdk_dirs = sdk_dirs @ map full_path infos"
  by (induction infos arbitrary: sdk_dirs) simp_all

lemma hostfxr_get_available_sdks_cases:
  "hostfxr_get_available_sdks enum_sdks exe_dir =
     ([Trace_setup, Trace_info, Get_all_sdk_infos (or_empty exe_dir),
       Result_sdks (word_of_nat (length (enum_sdks (or_empty exe_dir))))
         (if enum_sdks (or_empty exe_dir) = [] then None
          else Some (map full_path (enum_sdks (or_empty exe_dir))))],
      Success)"
  by (simp add: hostfxr_get_available_sdks_def Let_def push_back_paths_map)

text \<open>
  C7. \<open>hostfxr_get_available_sdks\<close> calls the callback exactly once and returns
  \<open>Success\<close>: with a null array and the count 0 when no SDK is found, and otherwise with
  the paths of all SDKs found, in the order of the enumeration. With an enumeration that
  orders the discovered SDKs as the specification says, the callback receives every
  discovered SDK, ascending by version.
\<close>

theorem get_available_sdks_calls_back_once:
  "fst (hostfxr_get_available_sdks enum_sdks exe_dir) =
     [Trace_setup, Trace_info, Get_all_sdk_infos (or_empty exe_dir),
      Result_sdks (word_of_nat (length (enum_sdks (or_empty exe_dir))))
        (if enum_sdks (or_empty exe_dir) = [] then None
         else Some (map full_path (enum_sdks (or_empty exe_dir))))]
   \<and> sdks_results (fst (hostfxr_get_available_sdks enum_sdks exe_dir)) =
     [if enum_sdks (or_empty exe_dir) = [] then None
      else Some (map full_path (enum_sdks (or_empty exe_dir)))]
   \<and> snd (hostfxr_get_available_sdks enum_sdks exe_dir) = Success
   \<and> sdks_results (fst (hostfxr_get_available_sdks (get_all_sdk_infos_spec scan) exe_dir)) =
     [if scan (or_empty exe_dir) = [] then None
      else Some (map full_path (get_all_sdk_infos_spec scan (or_empty exe_dir)))]
   \<and> sorted (map version (get_all_sdk_infos_spec scan (or_empty exe_dir)))
   \<and> mset (get_all_sdk_infos_spec scan (or_empty exe_dir)) = mset (scan (or_empty exe_dir))"
proof (intro conjI)
  show "sdks_results (fst (hostfxr_get_available_sdks (get_all_sdk_infos_spec scan) exe_dir)) =
     [if scan (or_empty exe_dir) = [] then None
      else Some (map full_path (get_all_sdk_infos_spec scan (or_empty exe_dir)))]"
  proof -
    have "get_all_sdk_infos_spec scan (or_empty exe_dir) = [] \<longleftrightarrow> scan (or_empty exe_dir) = []"
      by (metis get_all_sdk_infos_spec_def length_0_conv length_sort)
    then show ?thesis
      by (simp add: hostfxr_get_available_sdks_cases)
  qed
qed (simp_all add: hostfxr_get_available_sdks_cases get_all_sdk_infos_spec_def)

theorem get_available_sdks_calls_back_once_witness:
  "sdks_results (fst (hostfxr_get_available_sdks (get_all_sdk_infos_spec sample_scan)
                        (Some ''/dotnet''))) =
     [Some [''/dotnet/sdk/1.0.0'', ''/dotnet/sdk/2.1.0'', ''/dotnet/sdk/3.0.0-preview'']]
   \<and> sdks_results (fst (hostfxr_get_available_sdks (get_all_sdk_infos_spec sample_scan)
                        None)) = [None]"
proof -
  have sorted: "get_all_sdk_infos_spec sample_scan ''/dotnet'' =
      [\<lparr>version = (1, 0, 0, True, []), full_path = ''/dotnet/sdk/1.0.0''\<rparr>,
       \<lparr>version = (2, 1, 0, True, []), full_path = ''/dotnet/sdk/2.1.0''\<rparr>,
       \<lparr>version = (3, 0, 0, False, ''preview''), full_path = ''/dotnet/sdk/3.0.0-preview''\<rparr>]"
    by (simp add: get_all_sdk_infos_spec_def sample_scan_def)
  have scan: "sample_scan (or_empty (Some ''/dotnet'')) \<noteq> []" "sample_scan (or_empty None) = []"
    by (simp_all add: sample_scan_def or_empty_def)
  show ?thesis
    using get_available_sdks_calls_back_once
            [where enum_sdks = "get_all_sdk_infos_spec sample_scan" and scan = sample_scan
               and exe_dir = "Some ''/dotnet''"]
          get_available_sdks_calls_back_once
            [where enum_sdks = "get_all_sdk_infos_spec sample_scan" and scan = sample_scan
               and exe_dir = None]
          sorted scan
    by (simp add: or_empty_def)
qed

end
